theory Spec2Isabelle
  imports Complex_Main
begin

section \<open>Characters and strings\<close>

text \<open>
  A Python \<open>str\<close> is modelled as a \<open>string\<close> whose characters are the code points
  U+0000 to U+00FF. The classification functions below are Python's on that range.
  Where a property is claimed of every Python \<open>str\<close>, the function is also given over
  any type of characters, with Python's tables as parameters (see \<open>sanitize_with\<close>).
  A Python \<open>float\<close> is modelled as a \<open>real\<close>: comparisons, sums and quotients are
  exact, rounding is not modelled.
\<close>

definition ord_chr :: "char \<Rightarrow> nat" where
  "ord_chr c = of_char c"

text \<open>\<open>str.isspace\<close>, which is also the regular-expression class \<open>\s\<close>.\<close>

definition isspace :: "char \<Rightarrow> bool" where
  "isspace c = (let n = ord_chr c in
     (9 \<le> n \<and> n \<le> 13) \<or> (28 \<le> n \<and> n \<le> 32) \<or> n = 133 \<or> n = 160)"

text \<open>The classes \<open>\d\<close> and \<open>[0-9]\<close>.\<close>

definition isdecimal :: "char \<Rightarrow> bool" where
  "isdecimal c = (let n = ord_chr c in 48 \<le> n \<and> n \<le> 57)"

definition isupper :: "char \<Rightarrow> bool" where
  "isupper c = (let n = ord_chr c in
     (65 \<le> n \<and> n \<le> 90) \<or> (192 \<le> n \<and> n \<le> 214) \<or> (216 \<le> n \<and> n \<le> 222))"

definition isalpha :: "char \<Rightarrow> bool" where
  "isalpha c = (let n = ord_chr c in
     (65 \<le> n \<and> n \<le> 90) \<or> (97 \<le> n \<and> n \<le> 122) \<or> n = 170 \<or> n = 181 \<or> n = 186 \<or>
     (192 \<le> n \<and> n \<le> 214) \<or> (216 \<le> n \<and> n \<le> 246) \<or> (248 \<le> n \<and> n \<le> 255))"

text \<open>\<open>str.isalnum\<close>: alphabetic, decimal, digit (superscripts) or numeric (fractions).\<close>

definition isalnum :: "char \<Rightarrow> bool" where
  "isalnum c = (let n = ord_chr c in
     isalpha c \<or> isdecimal c \<or> n = 178 \<or> n = 179 \<or> n = 185 \<or> n = 188 \<or> n = 189 \<or> n = 190)"

text \<open>\<open>str.lower\<close> on one character; on this range the result is one character.\<close>

definition lower_chr :: "char \<Rightarrow> char" where
  "lower_chr c = (if isupper c then char_of (ord_chr c + 32) else c)"

definition lower :: "string \<Rightarrow> string" where
  "lower s = map lower_chr s"

text \<open>\<open>s.strip(chars)\<close> for a predicate on characters.\<close>

definition strip_with :: "('c \<Rightarrow> bool) \<Rightarrow> 'c list \<Rightarrow> 'c list" where
  "strip_with p s = rev (dropWhile p (rev (dropWhile p s)))"

definition strip :: "string \<Rightarrow> string" where
  "strip s = strip_with isspace s"

text \<open>\<open>s[-n:]\<close> for a positive \<open>n\<close>.\<close>

definition tail_chars :: "nat \<Rightarrow> string \<Rightarrow> string" where
  "tail_chars n s = drop (length s - n) s"

text \<open>\<open>int(s)\<close> on a run of decimal digits.\<close>

definition digit_val :: "char \<Rightarrow> nat" where
  "digit_val c = ord_chr c - 48"

definition py_int :: "string \<Rightarrow> nat" where
  "py_int s = foldl (\<lambda>a c. 10 * a + digit_val c) 0 s"

text \<open>\<open>float(s)\<close> on a text matched by \<open>[0-9]*\.?[0-9]+\<close>: the decimal it denotes.\<close>

definition py_float :: "string \<Rightarrow> real" where
  "py_float s =
     (let ip = takeWhile isdecimal s;
          fp = (case dropWhile isdecimal s of [] \<Rightarrow> [] | _ # t \<Rightarrow> t)
      in real (py_int (ip @ fp)) / 10 ^ length fp)"

section \<open>Regular expressions\<close>

text \<open>
  Every pattern of the program is a sequence of single characters and character classes,
  each with at most one quantifier, and of group parentheses. \<open>One\<close> is a character or
  class, \<open>Opt\<close> is \<open>?\<close>, \<open>Star\<close> is \<open>*\<close>, \<open>Plus\<close> is \<open>+\<close>, \<open>Lazy\<close> is \<open>*?\<close>, and
  \<open>Mark\<close> is a group parenthesis, opening or closing.
\<close>

datatype item =
    One "char \<Rightarrow> bool"
  | Opt "char \<Rightarrow> bool"
  | Star "char \<Rightarrow> bool"
  | Plus "char \<Rightarrow> bool"
  | Lazy "char \<Rightarrow> bool"
  | Mark

text \<open>
  The backtracking matcher anchored at the start of \<open>s\<close>. A greedy quantifier tries the
  longer repetition first, a lazy one the shorter. The result lists the text that was
  left at each \<open>Mark\<close>, in order, and last the text left after the match.
\<close>

fun match_here :: "item list \<Rightarrow> string \<Rightarrow> string list option" where
  "match_here [] s = Some [s]"
| "match_here (Mark # p) s = map_option (Cons s) (match_here p s)"
| "match_here (One c # p) [] = None"
| "match_here (One c # p) (x # xs) = (if c x then match_here p xs else None)"
| "match_here (Opt c # p) [] = match_here p []"
| "match_here (Opt c # p) (x # xs) =
     (if c x then
        (case match_here p xs of Some r \<Rightarrow> Some r | None \<Rightarrow> match_here p (x # xs))
      else match_here p (x # xs))"
| "match_here (Star c # p) [] = match_here p []"
| "match_here (Star c # p) (x # xs) =
     (if c x then
        (case match_here (Star c # p) xs of Some r \<Rightarrow> Some r
         | None \<Rightarrow> match_here p (x # xs))
      else match_here p (x # xs))"
| "match_here (Plus c # p) [] = None"
| "match_here (Plus c # p) (x # xs) =
     (if c x then match_here (Star c # p) xs else None)"
| "match_here (Lazy c # p) [] = match_here p []"
| "match_here (Lazy c # p) (x # xs) =
     (case match_here p (x # xs) of Some r \<Rightarrow> Some r
      | None \<Rightarrow> if c x then match_here (Lazy c # p) xs else None)"

text \<open>\<open>re.search\<close>: the match at the leftmost position that has one.\<close>

fun search :: "item list \<Rightarrow> string \<Rightarrow> string list option" where
  "search p [] = match_here p []"
| "search p (x # xs) =
     (case match_here p (x # xs) of Some r \<Rightarrow> Some r | None \<Rightarrow> search p xs)"

text \<open>\<open>m.group(1)\<close> and \<open>m.group(2)\<close>, from the texts left at the marks.\<close>

definition between :: "string \<Rightarrow> string \<Rightarrow> string" where
  "between a b = take (length a - length b) a"

fun group1 :: "string list \<Rightarrow> string" where
  "group1 (a # b # r) = between a b"
| "group1 r = []"

fun group2 :: "string list \<Rightarrow> string" where
  "group2 (a # b # c # d # r) = between c d"
| "group2 r = []"

text \<open>
  \<open>re.findall\<close> for a pattern with one group: the group of every match, left to right,
  each search starting where the previous match ended (one character further after an
  empty match).
\<close>

function findall :: "item list \<Rightarrow> string \<Rightarrow> string list" where
  "findall p s =
     (case match_here p s of
        Some r \<Rightarrow>
          group1 r #
            (if length (last r) < length s then findall p (last r)
             else (case s of [] \<Rightarrow> [] | _ # xs \<Rightarrow> findall p xs))
      | None \<Rightarrow> (case s of [] \<Rightarrow> [] | _ # xs \<Rightarrow> findall p xs))"
  by pat_completeness auto
termination
  by (relation "measure (\<lambda>(p, s). length s)") auto

declare findall.simps [simp del]

text \<open>A literal character, under \<open>re.IGNORECASE\<close> or not, and a literal text.\<close>

definition chr :: "bool \<Rightarrow> char \<Rightarrow> char \<Rightarrow> bool" where
  "chr ic c x = (if ic then lower_chr x = lower_chr c else x = c)"

definition lit :: "bool \<Rightarrow> string \<Rightarrow> item list" where
  "lit ic s = map (\<lambda>c. One (chr ic c)) s"

definition anychar :: "char \<Rightarrow> bool" where
  "anychar c = True"

section \<open>Metric extraction\<close>

datatype error =
    CalledProcessError
  | RuntimeError string
  | ValueError string
  | APIError

subsection \<open>\<open>eval_ipc_docker.py\<close>\<close>

text \<open>
  \<open>_IPC_PATTERNS\<close>:
  \<^verbatim>\<open>CPU\s*\d+\s+cumulative\s+IPC:\s*([0-9]*\.?[0-9]+)\<close> and
  \<^verbatim>\<open>Overall\s+IPC:\s*([0-9]*\.?[0-9]+)\<close>, both used with \<open>re.IGNORECASE\<close>.
\<close>

definition number_group :: "item list" where
  "number_group = [Mark, Star isdecimal, Opt (chr True CHR ''.''), Plus isdecimal, Mark]"

definition pat_cpu_cumulative :: "item list" where
  "pat_cpu_cumulative =
     lit True ''CPU'' @ [Star isspace, Plus isdecimal, Plus isspace] @
     lit True ''cumulative'' @ [Plus isspace] @ lit True ''IPC:'' @ [Star isspace] @
     number_group"

definition pat_overall :: "item list" where
  "pat_overall =
     lit True ''Overall'' @ [Plus isspace] @ lit True ''IPC:'' @ [Star isspace] @
     number_group"

definition IPC_PATTERNS :: "item list list" where
  "IPC_PATTERNS = [pat_cpu_cumulative, pat_overall]"

text \<open>\<^verbatim>\<open>c[u]?mmulative\s+IPC:\s*([0-9]*\.?[0-9]+)\<close>, with \<open>re.IGNORECASE\<close>.\<close>

definition pat_cmmulative :: "item list" where
  "pat_cmmulative =
     lit True ''c'' @ [Opt (chr True CHR ''u'')] @ lit True ''mmulative'' @
     [Plus isspace] @ lit True ''IPC:'' @ [Star isspace] @ number_group"

text \<open>
  \<^verbatim>\<open>Total\s+Instructions:\s*([0-9]+)\<close> and \<^verbatim>\<open>Total\s+Cycles:\s*([0-9]+)\<close>,
  with \<open>re.IGNORECASE\<close>.
\<close>

definition pat_total_instructions :: "item list" where
  "pat_total_instructions =
     lit True ''Total'' @ [Plus isspace] @ lit True ''Instructions:'' @ [Star isspace] @
     [Mark, Plus isdecimal, Mark]"

definition pat_total_cycles :: "item list" where
  "pat_total_cycles =
     lit True ''Total'' @ [Plus isspace] @ lit True ''Cycles:'' @ [Star isspace] @
     [Mark, Plus isdecimal, Mark]"

text \<open>The loop \<open>for pat in _IPC_PATTERNS\<close>: the first pattern that is found returns.\<close>

fun first_pattern :: "item list list \<Rightarrow> string \<Rightarrow> real option" where
  "first_pattern [] output = None"
| "first_pattern (pat # pats) output =
     (case search pat output of
        Some m \<Rightarrow> Some (py_float (group1 m))
      | None \<Rightarrow> first_pattern pats output)"

text \<open>
  \<open>parse_ipc\<close> returns what it printed and either the value or the exception it raised.
\<close>

definition ipc_not_found :: error where
  "ipc_not_found = RuntimeError ''IPC not found in simulator output.''"

definition ipc_debug_dump :: "string \<Rightarrow> string list" where
  "ipc_debug_dump output =
     [''IPC not found; last 500 chars of output:'', replicate 60 CHR ''='',
      tail_chars 500 output, replicate 60 CHR ''='']"

definition totals_fallback :: "string \<Rightarrow> string list \<times> (error + real)" where
  "totals_fallback output =
     (case (search pat_total_instructions output, search pat_total_cycles output) of
        (Some m_instr, Some m_cycles) \<Rightarrow>
          (let instr = real (py_int (group1 m_instr));
               cycles = real (py_int (group1 m_cycles))
           in if cycles > 0 then ([], Inr (instr / cycles))
              else (ipc_debug_dump output, Inl ipc_not_found))
      | _ \<Rightarrow> (ipc_debug_dump output, Inl ipc_not_found))"

definition parse_ipc :: "string \<Rightarrow> string list \<times> (error + real)" where
  "parse_ipc output =
     (case first_pattern IPC_PATTERNS output of
        Some v \<Rightarrow> ([], Inr v)
      | None \<Rightarrow>
          (let cum_matches = findall pat_cmmulative output
           in if cum_matches \<noteq> [] then ([], Inr (py_float (last cum_matches)))
              else totals_fallback output))"

text \<open>\<^verbatim>\<open>LLC TOTAL\s+ACCESS:\s+(\d+)\s+HIT:\s+(\d+)\<close>, case-sensitive.\<close>

definition pat_llc_total :: "item list" where
  "pat_llc_total =
     lit False ''LLC TOTAL'' @ [Plus isspace] @ lit False ''ACCESS:'' @ [Plus isspace] @
     [Mark, Plus isdecimal, Mark] @ [Plus isspace] @ lit False ''HIT:'' @ [Plus isspace] @
     [Mark, Plus isdecimal, Mark]"

definition parse_cache_hit_rate :: "string \<Rightarrow> real option" where
  "parse_cache_hit_rate output =
     (case search pat_llc_total output of
        None \<Rightarrow> None
      | Some m \<Rightarrow>
          (let access = py_int (group1 m); hit = py_int (group2 m)
           in Some (if access > 0 then real hit / real access else 0)))"

subsection \<open>\<open>run_loop_docker.py\<close>\<close>

definition llc_not_found :: error where
  "llc_not_found = RuntimeError ''LLC TOTAL not found''"

definition parse_hit_rate :: "string \<Rightarrow> error + real" where
  "parse_hit_rate output =
     (case search pat_llc_total output of
        Some m \<Rightarrow>
          (let access_count = py_int (group1 m); hit_count = py_int (group2 m)
           in if access_count > 0 then Inr (real hit_count / real access_count)
              else Inr 0)
      | None \<Rightarrow> Inl llc_not_found)"

section \<open>The IPC evaluation script\<close>

record workload =
  wl_name :: string
  trace_path :: string

definition WORKLOADS :: "workload list" where
  "WORKLOADS =
     [\<lparr>wl_name = ''astar'', trace_path = ''ChampSim_CRC2/traces/astar_313B.trace.gz''\<rparr>,
      \<lparr>wl_name = ''lbm'', trace_path = ''ChampSim_CRC2/traces/lbm_564B.trace.gz''\<rparr>,
      \<lparr>wl_name = ''mcf'', trace_path = ''ChampSim_CRC2/traces/mcf_250B.trace.gz''\<rparr>,
      \<lparr>wl_name = ''milc'', trace_path = ''ChampSim_CRC2/traces/milc_409B.trace.gz''\<rparr>,
      \<lparr>wl_name = ''omnetpp'', trace_path = ''ChampSim_CRC2/traces/omnetpp_17B.trace.gz''\<rparr>]"

text \<open>
  The sandbox is a pair of functions: whether the build of a source file succeeds, and the
  standard output of running its executable on a trace, \<open>None\<close> when \<open>subprocess.run\<close>
  raises \<open>CalledProcessError\<close>. No call passes a timeout to \<open>subprocess.run\<close>.
\<close>

record 'f sandbox =
  docker_compile :: "'f \<Rightarrow> bool"
  docker_run :: "'f \<Rightarrow> string \<Rightarrow> string option"

definition compile_policy :: "'f sandbox \<Rightarrow> 'f \<Rightarrow> error + 'f" where
  "compile_policy sb cc_file = (if docker_compile sb cc_file then Inr cc_file else Inl CalledProcessError)"

definition run_executable :: "'f sandbox \<Rightarrow> 'f \<Rightarrow> string \<Rightarrow> error + string" where
  "run_executable sb exe trace =
     (case docker_run sb exe trace of Some out \<Rightarrow> Inr out | None \<Rightarrow> Inl CalledProcessError)"

text \<open>
  A row of \<open>results\<close>. The source stores both the stem of the policy file and its path;
  \<open>row_policy\<close> keeps the path. A missing hit rate, written as the empty text in the
  source, is \<open>None\<close>.
\<close>

record result_row =
  row_workload :: string
  row_policy :: string
  row_ipc :: real
  row_cache_hit_rate :: "real option"

text \<open>The loop \<open>for w in workloads\<close> of \<open>evaluate_policy\<close>, appending to \<open>results\<close>.\<close>

fun evaluate_rows ::
  "string sandbox \<Rightarrow> string \<Rightarrow> workload list \<Rightarrow> result_row list \<Rightarrow> error + result_row list"
where
  "evaluate_rows sb exe [] results = Inr results"
| "evaluate_rows sb exe (w # ws) results =
     (case run_executable sb exe (trace_path w) of
        Inl e \<Rightarrow> Inl e
      | Inr out \<Rightarrow>
          (case snd (parse_ipc out) of
             Inl e \<Rightarrow> Inl e
           | Inr v \<Rightarrow>
               evaluate_rows sb exe ws
                 (results @ [\<lparr>row_workload = wl_name w, row_policy = exe, row_ipc = v,
                              row_cache_hit_rate = parse_cache_hit_rate out\<rparr>])))"

definition evaluate_policy ::
  "string sandbox \<Rightarrow> string \<Rightarrow> workload list \<Rightarrow> error + real \<times> result_row list"
where
  "evaluate_policy sb cc_path wls =
     (case compile_policy sb cc_path of
        Inl e \<Rightarrow> Inl e
      | Inr exe \<Rightarrow>
          (case evaluate_rows sb exe wls [] of
             Inl e \<Rightarrow> Inl e
           | Inr results \<Rightarrow>
               (let mean_ipc =
                      (if results \<noteq> [] then sum_list (map row_ipc results) / real (length results)
                       else 0)
                in Inr (mean_ipc, results))))"

section \<open>The search loop\<close>

definition ITERATIONS :: nat where
  "ITERATIONS = 50"

definition CANDIDATES :: nat where
  "CANDIDATES = 3"

definition workloads :: "workload list" where
  "workloads = WORKLOADS"

text \<open>
  \<open>sanitize\<close> is the expression
  \<^verbatim>\<open>"".join(c if c.isalnum() else "_" for c in name).strip("_").lower()\<close>.
  It is written first for any type of characters, with what it takes from Python as
  parameters: the test \<open>c.isalnum()\<close>, the text operation \<open>s.lower()\<close>, which may
  change the number of characters, and the underscore. This covers every Python \<open>str\<close>.
  \<open>sanitize\<close> is its instance on the characters below U+0100.
\<close>

definition sanitize_with ::
  "('c \<Rightarrow> bool) \<Rightarrow> ('c list \<Rightarrow> 'c list) \<Rightarrow> 'c \<Rightarrow> 'c list \<Rightarrow> 'c list"
where
  "sanitize_with alnum low us nm =
     low (strip_with (\<lambda>c. c = us) (map (\<lambda>c. if alnum c then c else us) nm))"

definition sanitize :: "string \<Rightarrow> string" where
  "sanitize nm = sanitize_with isalnum lower CHR ''_'' nm"

text \<open>
  The three patterns of \<open>parse_policy_content\<close>, used with \<open>re.DOTALL | re.IGNORECASE\<close>:
  \<^verbatim>\<open>##\s*Policy\s*Name\s*\n(.*?)\n\<close>,
  \<^verbatim>\<open>##\s*Policy\s*Description\s*\n(.*?)\n\<close> and the fenced block
  \<^verbatim>\<open>```cpp\s*(.*?)\s*```\<close>.
\<close>

definition newline :: char where
  "newline = CHR 0x0A"

definition backtick :: char where
  "backtick = CHR 0x60"

definition section_pattern :: "string \<Rightarrow> item list" where
  "section_pattern title =
     lit True ''##'' @ [Star isspace] @ lit True ''Policy'' @ [Star isspace] @
     lit True title @ [Star isspace, One (chr True newline), Mark, Lazy anychar, Mark,
     One (chr True newline)]"

definition pat_policy_name :: "item list" where
  "pat_policy_name = section_pattern ''Name''"

definition pat_policy_description :: "item list" where
  "pat_policy_description = section_pattern ''Description''"

definition pat_cpp_fence :: "item list" where
  "pat_cpp_fence =
     lit True ([backtick, backtick, backtick] @ ''cpp'') @ [Star isspace, Mark, Lazy anychar, Mark,
     Star isspace] @ lit True [backtick, backtick, backtick]"

definition extract_re :: "item list \<Rightarrow> string \<Rightarrow> string option" where
  "extract_re pattern txt =
     (case search pattern txt of Some m \<Rightarrow> Some (strip (group1 m)) | None \<Rightarrow> None)"

definition parse_policy_content ::
  "string \<Rightarrow> string option \<times> string option \<times> string option"
where
  "parse_policy_content txt =
     (extract_re pat_policy_name txt, extract_re pat_policy_description txt,
      extract_re pat_cpp_fence txt)"

text \<open>Python's truth value of an \<open>Optional[str]\<close>: \<open>None\<close> and the empty text are false.\<close>

fun truthy :: "string option \<Rightarrow> bool" where
  "truthy None = False"
| "truthy (Some s) = (s \<noteq> [])"

text \<open>
  The source file \<open>EXAMPLE_DIR / f"{i:03}_{j:02}_{base}.cc"\<close> is kept as its three parts.
\<close>

record cc_file =
  cc_iteration :: nat
  cc_slot :: nat
  cc_base :: string

text \<open>One call of \<open>record\<close>: a row appended to the experiments table.\<close>

record experiment_row =
  exp_workload :: string
  exp_policy :: string
  exp_description :: string
  exp_cc :: cc_file
  exp_rate :: real

text \<open>An entry of \<open>candidate_results\<close>.\<close>

record candidate =
  avg_hit :: real
  name :: string
  desc :: string
  code :: string
  cc :: cc_file
  per_wl :: "(string \<times> real) list"

text \<open>
  What the loop talks to: the generator's answer at iteration \<open>i\<close> and slot \<open>j\<close>
  (\<open>None\<close> when the call raises) and the sandbox.
\<close>

record world =
  llm :: "nat \<Rightarrow> nat \<Rightarrow> string option"
  sandbox :: "cc_file sandbox"

definition run_policy :: "cc_file sandbox \<Rightarrow> cc_file \<Rightarrow> string \<Rightarrow> error + string" where
  "run_policy sb exe trace =
     (case docker_run sb exe trace of Some out \<Rightarrow> Inr out | None \<Rightarrow> Inl CalledProcessError)"

text \<open>
  The loop \<open>for trace_info in workloads\<close>. An exception of \<open>run_policy\<close> or of
  \<open>parse_hit_rate\<close> is caught nowhere in \<open>main\<close>; the rows recorded before it stay.
\<close>

fun evaluate_workloads ::
  "cc_file sandbox \<Rightarrow> string \<Rightarrow> string \<Rightarrow> cc_file \<Rightarrow> workload list \<Rightarrow> real \<Rightarrow>
   (string \<times> real) list \<Rightarrow> experiment_row list \<Rightarrow>
   experiment_row list \<times> (error + real \<times> (string \<times> real) list)"
where
  "evaluate_workloads sb nm ds f [] total_hit pw db = (db, Inr (total_hit, pw))"
| "evaluate_workloads sb nm ds f (t # ts) total_hit pw db =
     (case run_policy sb f (trace_path t) of
        Inl e \<Rightarrow> (db, Inl e)
      | Inr out \<Rightarrow>
          (case parse_hit_rate out of
             Inl e \<Rightarrow> (db, Inl e)
           | Inr hit \<Rightarrow>
               evaluate_workloads sb nm ds f ts (total_hit + hit) (pw @ [(wl_name t, hit)])
                 (db @ [\<lparr>exp_workload = wl_name t, exp_policy = nm, exp_description = ds,
                         exp_cc = f, exp_rate = hit\<rparr>])))"

text \<open>
  The body of \<open>for j in range(CANDIDATES)\<close>: \<open>Inr None\<close> is \<open>continue\<close>, \<open>Inr (Some c)\<close>
  appends \<open>c\<close> to \<open>candidate_results\<close>, \<open>Inl e\<close> is an exception that leaves the body.
  \<open>TEMP\<close> is 0.2, so the file name ends in \<open>_t02\<close>.
\<close>

definition candidate_slot ::
  "world \<Rightarrow> nat \<Rightarrow> nat \<Rightarrow> experiment_row list \<Rightarrow> experiment_row list \<times> (error + candidate option)"
where
  "candidate_slot w i j db =
     (case llm w i j of
        None \<Rightarrow> (db, Inr None)
      | Some txt \<Rightarrow>
          (case parse_policy_content txt of
             (Some nm, Some ds, Some cd) \<Rightarrow>
               if \<not> (truthy (Some nm) \<and> truthy (Some ds) \<and> truthy (Some cd)) then (db, Inr None)
               else
                 (let base = sanitize nm @ ''_t02'';
                      f = \<lparr>cc_iteration = i, cc_slot = j, cc_base = base\<rparr>
                  in case compile_policy (sandbox w) f of
                       Inl e \<Rightarrow> (db, Inr None)
                     | Inr exe \<Rightarrow>
                         (case evaluate_workloads (sandbox w) nm ds f workloads 0 [] db of
                            (db', Inl e) \<Rightarrow> (db', Inl e)
                          | (db', Inr (total_hit, pw)) \<Rightarrow>
                              (db', Inr (Some \<lparr>avg_hit = total_hit / real (length workloads),
                                 name = nm, desc = ds, code = cd, cc = f, per_wl = pw\<rparr>))))
           | _ \<Rightarrow> (db, Inr None)))"

fun candidates_loop ::
  "world \<Rightarrow> nat \<Rightarrow> nat list \<Rightarrow> candidate list \<Rightarrow> experiment_row list \<Rightarrow>
   experiment_row list \<times> (error + candidate list)"
where
  "candidates_loop w i [] candidate_results db = (db, Inr candidate_results)"
| "candidates_loop w i (j # js) candidate_results db =
     (case candidate_slot w i j db of
        (db', Inl e) \<Rightarrow> (db', Inl e)
      | (db', Inr None) \<Rightarrow> candidates_loop w i js candidate_results db'
      | (db', Inr (Some c)) \<Rightarrow> candidates_loop w i js (candidate_results @ [c]) db')"

text \<open>
  \<open>max(candidate_results, key=lambda x: x["avg_hit"])\<close> on a non-empty list: the running
  maximum is replaced only by a strictly greater key.
\<close>

fun max_from :: "candidate \<Rightarrow> candidate list \<Rightarrow> candidate" where
  "max_from b [] = b"
| "max_from b (c # cs) = max_from (if avg_hit c > avg_hit b then c else b) cs"

record state =
  best_hit :: real
  current_hit :: real
  prev :: "(string \<times> string \<times> string) option"
  db :: "experiment_row list"

datatype flow = Next state | Break state | Raised error state

text \<open>The feedback branch at the head of every iteration but the first.\<close>

definition feedback_step :: "nat \<Rightarrow> state \<Rightarrow> state" where
  "feedback_step i st =
     (if i = 0 then st
      else if current_hit st > best_hit st then st\<lparr>best_hit := current_hit st\<rparr>
      else st)"

definition early_exit :: "state \<Rightarrow> bool" where
  "early_exit st = (best_hit st > 0 \<and> current_hit st / best_hit st > 1.3)"

definition record_chosen :: "candidate \<Rightarrow> experiment_row list \<Rightarrow> state \<Rightarrow> state" where
  "record_chosen best_cand db' st =
     st\<lparr>current_hit := avg_hit best_cand,
        prev := Some (name best_cand, desc best_cand, code best_cand),
        db := db' @ [\<lparr>exp_workload = ''all'', exp_policy = name best_cand,
                       exp_description = desc best_cand, exp_cc = cc best_cand,
                       exp_rate = avg_hit best_cand\<rparr>]\<rparr>"

text \<open>The body of \<open>for i in range(ITERATIONS)\<close>.\<close>

definition iteration :: "world \<Rightarrow> nat \<Rightarrow> state \<Rightarrow> flow" where
  "iteration w i st =
     (let st1 = feedback_step i st
      in case candidates_loop w i [0..<CANDIDATES] [] (db st1) of
           (db', Inl e) \<Rightarrow> Raised e (st1\<lparr>db := db'\<rparr>)
         | (db', Inr []) \<Rightarrow> Next (st1\<lparr>db := db'\<rparr>)
         | (db', Inr (c # cs)) \<Rightarrow>
             (let st2 = record_chosen (max_from c cs) db' st1
              in if early_exit st2 then Break st2 else Next st2))"

fun iterations :: "world \<Rightarrow> nat list \<Rightarrow> state \<Rightarrow> flow" where
  "iterations w [] st = Next st"
| "iterations w (i # is) st =
     (case iteration w i st of
        Next st' \<Rightarrow> iterations w is st'
      | Break st' \<Rightarrow> Break st'
      | Raised e st' \<Rightarrow> Raised e st')"

text \<open>
  \<open>main\<close> from the point where \<open>best_hit\<close> has been read from the store: \<open>Next\<close> is the
  loop running out of iterations, \<open>Break\<close> the early exit, \<open>Raised\<close> an exception that
  ends the program.
\<close>

definition init :: "real \<Rightarrow> state" where
  "init best0 = \<lparr>best_hit = best0, current_hit = best0, prev = None, db = []\<rparr>"

definition main :: "world \<Rightarrow> real \<Rightarrow> flow" where
  "main w best0 = iterations w [0..<ITERATIONS] (init best0)"

text \<open>The state before the first iteration and after each iteration that was entered.\<close>

fun history :: "world \<Rightarrow> nat list \<Rightarrow> state \<Rightarrow> state list" where
  "history w [] st = [st]"
| "history w (i # is) st =
     st # (case iteration w i st of
             Next st' \<Rightarrow> history w is st'
           | Break st' \<Rightarrow> [st']
           | Raised e st' \<Rightarrow> [st'])"

section \<open>The first two steps of the primary extractor\<close>

text \<open>
  What the loop over \<open>_IPC_PATTERNS\<close> returns for its first and for its second entry:
  the number in the leftmost match of the pattern, or nothing.
\<close>

definition strategy_per_core :: "string \<Rightarrow> real option" where
  "strategy_per_core output =
     map_option (\<lambda>m. py_float (group1 m)) (search pat_cpu_cumulative output)"

definition strategy_summary :: "string \<Rightarrow> real option" where
  "strategy_summary output =
     map_option (\<lambda>m. py_float (group1 m)) (search pat_overall output)"

section \<open>Example inputs\<close>

text \<open>A well-formed answer of the generator, and one without the fenced code block.\<close>

definition good_response :: string where
  "good_response =
     ''## Policy Name\<newline>LRU Plus\<newline>\<newline>## Policy Description\<newline>Keeps hot lines.\<newline>\<newline>'' @
     ''## C++ Implementation\<newline>'' @ [backtick, backtick, backtick] @ ''cpp\<newline>int x;\<newline>'' @
     [backtick, backtick, backtick] @ ''\<newline>''"

definition no_code_response :: string where
  "no_code_response =
     ''## Policy Name\<newline>LRU Plus\<newline>\<newline>## Policy Description\<newline>Keeps hot lines.\<newline>\<newline>''"

text \<open>An answer with the header of the name section but no name line under it.\<close>

definition header_only_response :: string where
  "header_only_response =
     ''## Policy Name\<newline>## Policy Description\<newline>Keeps hot lines.\<newline>\<newline>'' @
     ''## C++ Implementation\<newline>'' @ [backtick, backtick, backtick] @ ''cpp\<newline>int x;\<newline>'' @
     [backtick, backtick, backtick] @ ''\<newline>''"

text \<open>A simulator output with 10 accesses and 6 hits.\<close>

definition sim_output :: string where
  "sim_output = ''LLC TOTAL     ACCESS:         10  HIT:          6  MISS:          4''"

text \<open>
  A sandbox in which every build and every run succeeds, and one in which the run on the
  second trace fails.
\<close>

definition good_sandbox :: "cc_file sandbox" where
  "good_sandbox = \<lparr>docker_compile = (\<lambda>f. True), docker_run = (\<lambda>f t. Some sim_output)\<rparr>"

definition lbm_fails_sandbox :: "cc_file sandbox" where
  "lbm_fails_sandbox =
     \<lparr>docker_compile = (\<lambda>f. True),
      docker_run = (\<lambda>f t. if t = ''ChampSim_CRC2/traces/lbm_564B.trace.gz'' then None
                             else Some sim_output)\<rparr>"

text \<open>
  Worlds: the generator answers only at iteration 0, in slot 0 or in slots 0 and 1, or
  never.
\<close>

definition one_candidate_world :: world where
  "one_candidate_world =
     \<lparr>llm = (\<lambda>i j. if i = 0 \<and> j = 0 then Some good_response else None),
      sandbox = good_sandbox\<rparr>"


definition run_failure_world :: world where
  "run_failure_world =
     \<lparr>llm = (\<lambda>i j. if i = 0 \<and> j = 0 then Some good_response else None),
      sandbox = lbm_fails_sandbox\<rparr>"

definition header_only_world :: world where
  "header_only_world = \<lparr>llm = (\<lambda>i j. Some header_only_response), sandbox = good_sandbox\<rparr>"

definition no_code_world :: world where
  "no_code_world = \<lparr>llm = (\<lambda>i j. Some no_code_response), sandbox = good_sandbox\<rparr>"

text \<open>A world in which no build succeeds, and a sandbox for the evaluation script.\<close>

definition no_build_world :: world where
  "no_build_world =
     \<lparr>llm = (\<lambda>i j. Some good_response),
      sandbox = \<lparr>docker_compile = (\<lambda>f. False), docker_run = (\<lambda>f t. Some sim_output)\<rparr>\<rparr>"

definition script_sandbox :: "string sandbox" where
  "script_sandbox =
     \<lparr>docker_compile = (\<lambda>f. True),
      docker_run = (\<lambda>f t. Some ''CPU 0 cumulative IPC: 1.2345'')\<rparr>"



section \<open>Notions used to state the properties of the loop\<close>

text \<open>The state an iteration ends in, however it ends.\<close>

fun flow_state :: "flow \<Rightarrow> state" where
  "flow_state (Next st) = st"
| "flow_state (Break st) = st"
| "flow_state (Raised e st) = st"

text \<open>The scores the loop has recorded under the label \<open>all\<close>: those of chosen candidates.\<close>

definition chosen_scores :: "state \<Rightarrow> real list" where
  "chosen_scores st = map exp_rate (filter (\<lambda>r. exp_workload r = ''all'') (db st))"

text \<open>
  Along a run that starts from \<open>init best0\<close>, \<open>current_hit\<close> is the initial score or a
  score recorded for a chosen candidate, and \<open>best_hit\<close> is at least the initial score.
\<close>

definition run_invariant :: "real \<Rightarrow> state \<Rightarrow> bool" where
  "run_invariant best0 st =
     (best0 \<le> best_hit st \<and> (current_hit st = best0 \<or> current_hit st \<in> set (chosen_scores st)))"

text \<open>
  What the example sandbox and the example answer produce for the source file \<open>f\<close>: the
  five rows of the evaluation and the entry of \<open>candidate_results\<close>.
\<close>

definition example_row :: "cc_file \<Rightarrow> string \<Rightarrow> experiment_row" where
  "example_row f wl =
     \<lparr>exp_workload = wl, exp_policy = ''LRU Plus'', exp_description = ''Keeps hot lines.'',
      exp_cc = f, exp_rate = 3 / 5\<rparr>"

definition example_rows :: "cc_file \<Rightarrow> experiment_row list" where
  "example_rows f = map (example_row f) [''astar'', ''lbm'', ''mcf'', ''milc'', ''omnetpp'']"

definition example_candidate :: "cc_file \<Rightarrow> candidate" where
  "example_candidate f =
     \<lparr>avg_hit = 3 / 5, name = ''LRU Plus'', desc = ''Keeps hot lines.'', code = ''int x;'',
      cc = f,
      per_wl = [(''astar'', 3 / 5), (''lbm'', 3 / 5), (''mcf'', 3 / 5), (''milc'', 3 / 5),
                (''omnetpp'', 3 / 5)]\<rparr>"

definition example_file :: "nat \<Rightarrow> nat \<Rightarrow> cc_file" where
  "example_file i j = \<lparr>cc_iteration = i, cc_slot = j, cc_base = ''lru_plus_t02''\<rparr>"

text \<open>
  The state after the first iteration of \<open>one_candidate_world\<close> entered with the score
  1/2: the best score is still 1/2, the current score is the chosen 3/5.
\<close>

definition after_first_iteration :: state where
  "after_first_iteration =
     record_chosen (example_candidate (example_file 0 0)) (example_rows (example_file 0 0))
       (init (1 / 2))"

section \<open>Facts about characters and stripping\<close>

lemmas char_eval =
  chr_def lower_chr_def isupper_def isspace_def isdecimal_def isalpha_def isalnum_def
  ord_chr_def char_of_def bit_Suc_0_iff anychar_def newline_def backtick_def



lemma ord_chr_inject: "ord_chr a = ord_chr b \<Longrightarrow> a = b"
  by (simp add: ord_chr_def)











section \<open>Sanitizing a policy name\<close>









section \<open>The primary metric extractor\<close>

lemmas pat_eval =
  pat_cpu_cumulative_def pat_overall_def pat_cmmulative_def pat_total_instructions_def
  pat_total_cycles_def pat_llc_total_def number_group_def lit_def between_def

text \<open>\<open>findall\<close> returns no match exactly when \<open>search\<close> finds none.\<close>

lemma findall_empty_iff: "findall p s = [] \<longleftrightarrow> search p s = None"
proof (induction s)
  case Nil
  show ?case by (simp add: findall.simps [of p "[]"] split: option.splits)
next
  case (Cons x xs)
  then show ?case by (simp add: findall.simps [of p "x # xs"] split: option.splits)
qed

text \<open>The chain of \<open>parse_ipc\<close>, step by step.\<close>

lemma parse_ipc_chain:
  "snd (parse_ipc output) =
     (case search pat_cpu_cumulative output of
        Some m \<Rightarrow> Inr (py_float (group1 m))
      | None \<Rightarrow>
         (case search pat_overall output of
            Some m \<Rightarrow> Inr (py_float (group1 m))
          | None \<Rightarrow>
             (if search pat_cmmulative output \<noteq> None
              then Inr (py_float (last (findall pat_cmmulative output)))
              else
                (case search pat_total_instructions output of
                   None \<Rightarrow> Inl ipc_not_found
                 | Some mi \<Rightarrow>
                    (case search pat_total_cycles output of
                       None \<Rightarrow> Inl ipc_not_found
                     | Some mc \<Rightarrow>
                        (if 0 < py_int (group1 mc)
                         then Inr (real (py_int (group1 mi)) / real (py_int (group1 mc)))
                         else Inl ipc_not_found))))))"
  by (simp add: parse_ipc_def IPC_PATTERNS_def totals_fallback_def Let_def findall_empty_iff
      split: option.splits)

lemma parse_ipc_printed:
  "fst (parse_ipc output) =
     (case snd (parse_ipc output) of Inr v \<Rightarrow> [] | Inl e \<Rightarrow> ipc_debug_dump output)"
  by (simp add: parse_ipc_def IPC_PATTERNS_def totals_fallback_def Let_def
      split: option.splits)

lemma parse_ipc_per_core:
  "strategy_per_core output = Some v \<Longrightarrow> snd (parse_ipc output) = Inr v"
  by (auto simp: parse_ipc_chain strategy_per_core_def)

lemma parse_ipc_summary:
  "strategy_per_core output = None \<Longrightarrow> strategy_summary output = Some v \<Longrightarrow>
     snd (parse_ipc output) = Inr v"
  by (auto simp: parse_ipc_chain strategy_per_core_def strategy_summary_def)

lemma parse_ipc_tolerant:
  "strategy_per_core output = None \<Longrightarrow> strategy_summary output = None \<Longrightarrow>
   findall pat_cmmulative output \<noteq> [] \<Longrightarrow>
     snd (parse_ipc output) = Inr (py_float (last (findall pat_cmmulative output)))"
  by (simp add: parse_ipc_chain strategy_per_core_def strategy_summary_def findall_empty_iff)

lemma parse_ipc_totals:
  "strategy_per_core output = None \<Longrightarrow> strategy_summary output = None \<Longrightarrow>
   findall pat_cmmulative output = [] \<Longrightarrow>
   search pat_total_instructions output = Some mi \<Longrightarrow>
   search pat_total_cycles output = Some mc \<Longrightarrow>
     snd (parse_ipc output) =
       (if 0 < py_int (group1 mc)
        then Inr (real (py_int (group1 mi)) / real (py_int (group1 mc)))
        else Inl ipc_not_found)"
  by (simp add: parse_ipc_chain strategy_per_core_def strategy_summary_def findall_empty_iff)

lemma parse_ipc_nothing:
  "strategy_per_core output = None \<Longrightarrow> strategy_summary output = None \<Longrightarrow>
   findall pat_cmmulative output = [] \<Longrightarrow>
   search pat_total_instructions output = None \<Longrightarrow>
     snd (parse_ipc output) = Inl ipc_not_found"
  by (simp add: parse_ipc_chain strategy_per_core_def strategy_summary_def findall_empty_iff)

lemma tail_chars_length: "length (tail_chars n s) = min n (length s)"
  by (simp add: tail_chars_def)

lemma tail_chars_suffix: "take (length s - n) s @ tail_chars n s = s"
  by (simp add: tail_chars_def)

lemma float_1_2345: "py_float ''1.2345'' = 1.2345"
  by (simp add: py_float_def py_int_def digit_val_def char_eval)

lemma float_1_0: "py_float ''1.0'' = 1"
  by (simp add: py_float_def py_int_def digit_val_def char_eval)

lemma float_2_0: "py_float ''2.0'' = 2"
  by (simp add: py_float_def py_int_def digit_val_def char_eval)

lemma float_0_5: "py_float ''0.5'' = 1 / 2"
  by (simp add: py_float_def py_int_def digit_val_def char_eval)

lemma float_0_75: "py_float ''0.75'' = 3 / 4"
  by (simp add: py_float_def py_int_def digit_val_def char_eval)

lemma per_core_example:
  "strategy_per_core ''CPU 0 cumulative IPC: 1.2345'' = Some 1.2345"
proof -
  have "search pat_cpu_cumulative ''CPU 0 cumulative IPC: 1.2345'' = Some [''1.2345'', [], []]"
    by (simp add: pat_eval char_eval)
  then show ?thesis
    by (simp add: strategy_per_core_def between_def float_1_2345 del: search.simps)
qed

lemma summary_example:
  "strategy_per_core ''Overall IPC: 0.75'' = None"
  "strategy_summary ''Overall IPC: 0.75'' = Some (3 / 4)"
proof -
  show "strategy_per_core ''Overall IPC: 0.75'' = None"
    by (simp add: strategy_per_core_def pat_eval char_eval)
  have "search pat_overall ''Overall IPC: 0.75'' = Some [''0.75'', [], []]"
    by (simp add: pat_eval char_eval)
  then show "strategy_summary ''Overall IPC: 0.75'' = Some (3 / 4)"
    by (simp add: strategy_summary_def between_def float_0_75 del: search.simps)
qed

lemma tolerant_example:
  "strategy_per_core ''Heartbeat cummulative IPC: 0.5\<newline>Finished cummulative IPC: 0.75'' = None"
  "strategy_summary ''Heartbeat cummulative IPC: 0.5\<newline>Finished cummulative IPC: 0.75'' = None"
  "findall pat_cmmulative ''Heartbeat cummulative IPC: 0.5\<newline>Finished cummulative IPC: 0.75'' =
     [''0.5'', ''0.75'']"
  by (simp_all add: strategy_per_core_def strategy_summary_def findall.simps pat_eval char_eval)

lemma totals_example:
  "strategy_per_core ''Total Instructions: 1000\<newline>Total Cycles: 500'' = None"
  "strategy_summary ''Total Instructions: 1000\<newline>Total Cycles: 500'' = None"
  "findall pat_cmmulative ''Total Instructions: 1000\<newline>Total Cycles: 500'' = []"
  "search pat_total_instructions ''Total Instructions: 1000\<newline>Total Cycles: 500'' =
     Some [''1000\<newline>Total Cycles: 500'', ''\<newline>Total Cycles: 500'', ''\<newline>Total Cycles: 500'']"
  "search pat_total_cycles ''Total Instructions: 1000\<newline>Total Cycles: 500'' =
     Some [''500'', [], []]"
  by (simp_all add: strategy_per_core_def strategy_summary_def findall.simps pat_eval char_eval)

lemma zero_cycles_example:
  "strategy_per_core ''Total Instructions: 1000\<newline>Total Cycles: 0'' = None"
  "strategy_summary ''Total Instructions: 1000\<newline>Total Cycles: 0'' = None"
  "findall pat_cmmulative ''Total Instructions: 1000\<newline>Total Cycles: 0'' = []"
  "search pat_total_instructions ''Total Instructions: 1000\<newline>Total Cycles: 0'' =
     Some [''1000\<newline>Total Cycles: 0'', ''\<newline>Total Cycles: 0'', ''\<newline>Total Cycles: 0'']"
  "search pat_total_cycles ''Total Instructions: 1000\<newline>Total Cycles: 0'' =
     Some [''0'', [], []]"
  by (simp_all add: strategy_per_core_def strategy_summary_def findall.simps pat_eval char_eval)

lemma no_metric_example:
  "strategy_per_core ''Simulation complete'' = None"
  "strategy_summary ''Simulation complete'' = None"
  "findall pat_cmmulative ''Simulation complete'' = []"
  "search pat_total_instructions ''Simulation complete'' = None"
  by (simp_all add: strategy_per_core_def strategy_summary_def findall.simps pat_eval char_eval)

lemma small_numbers: "py_int ''1000'' = 1000" "py_int ''500'' = 500" "py_int ''0'' = 0"
  by (simp_all add: py_int_def digit_val_def char_eval)

lemma examples_evaluated:
  "snd (parse_ipc ''CPU 0 cumulative IPC: 1.2345'') = Inr 1.2345"
  "snd (parse_ipc ''Overall IPC: 0.75'') = Inr (3 / 4)"
  "snd (parse_ipc ''Heartbeat cummulative IPC: 0.5\<newline>Finished cummulative IPC: 0.75'') =
     Inr (3 / 4)"
  "snd (parse_ipc ''Total Instructions: 1000\<newline>Total Cycles: 500'') = Inr 2"
  "snd (parse_ipc ''Total Instructions: 1000\<newline>Total Cycles: 0'') = Inl ipc_not_found"
  "snd (parse_ipc ''Simulation complete'') = Inl ipc_not_found"
proof -
  show "snd (parse_ipc ''CPU 0 cumulative IPC: 1.2345'') = Inr 1.2345"
    using per_core_example by (rule parse_ipc_per_core)
  show "snd (parse_ipc ''Overall IPC: 0.75'') = Inr (3 / 4)"
    using summary_example by (rule parse_ipc_summary)
  have "snd (parse_ipc ''Heartbeat cummulative IPC: 0.5\<newline>Finished cummulative IPC: 0.75'') =
     Inr (py_float (last (findall pat_cmmulative
       ''Heartbeat cummulative IPC: 0.5\<newline>Finished cummulative IPC: 0.75'')))"
    by (rule parse_ipc_tolerant) (simp_all only: tolerant_example list.distinct not_False_eq_True)
  then show "snd (parse_ipc ''Heartbeat cummulative IPC: 0.5\<newline>Finished cummulative IPC: 0.75'') =
     Inr (3 / 4)"
    by (simp add: tolerant_example float_0_75)
  have "snd (parse_ipc ''Total Instructions: 1000\<newline>Total Cycles: 500'') =
       (if 0 < py_int (group1 [''500'', [], []])
        then Inr (real (py_int (group1 [''1000\<newline>Total Cycles: 500'',
               ''\<newline>Total Cycles: 500'', ''\<newline>Total Cycles: 500'']))
             / real (py_int (group1 [''500'', [], []])))
        else Inl ipc_not_found)"
    by (rule parse_ipc_totals) (rule totals_example)+
  then show "snd (parse_ipc ''Total Instructions: 1000\<newline>Total Cycles: 500'') = Inr 2"
    by (simp add: between_def small_numbers)
  have "snd (parse_ipc ''Total Instructions: 1000\<newline>Total Cycles: 0'') =
       (if 0 < py_int (group1 [''0'', [], []])
        then Inr (real (py_int (group1 [''1000\<newline>Total Cycles: 0'',
               ''\<newline>Total Cycles: 0'', ''\<newline>Total Cycles: 0'']))
             / real (py_int (group1 [''0'', [], []])))
        else Inl ipc_not_found)"
    by (rule parse_ipc_totals) (rule zero_cycles_example)+
  then show "snd (parse_ipc ''Total Instructions: 1000\<newline>Total Cycles: 0'') = Inl ipc_not_found"
    by (simp add: between_def small_numbers)
  show "snd (parse_ipc ''Simulation complete'') = Inl ipc_not_found"
    by (rule parse_ipc_nothing) (rule no_metric_example)+
qed

text \<open>A search passes over a prefix in which no match starts.\<close>

lemma search_skip:
  "\<forall>k < length before. match_here p (drop k (before @ s)) = None \<Longrightarrow>
     search p (before @ s) = search p s"
proof (induction before)
  case Nil
  then show ?case by simp
next
  case (Cons x before)
  from Cons.prems have "match_here p (drop 0 ((x # before) @ s)) = None" by blast
  then have h: "match_here p (x # before @ s) = None" by simp
  have "\<forall>k < length before. match_here p (drop k (before @ s)) = None"
  proof (intro allI impI)
    fix k assume "k < length before"
    then have "Suc k < length (x # before)" by simp
    with Cons.prems have "match_here p (drop (Suc k) ((x # before) @ s)) = None" by blast
    then show "match_here p (drop k (before @ s)) = None" by simp
  qed
  from Cons.IH [OF this] h show ?case by simp
qed

lemma digits_end:
  "rest = [] \<or> \<not> isdecimal (hd rest) \<Longrightarrow>
     match_here [Star isdecimal, Mark] rest = Some [rest, rest]"
  by (cases rest) auto

lemma per_core_line:
  assumes "rest = [] \<or> \<not> isdecimal (hd rest)"
  shows "match_here pat_cpu_cumulative (''CPU 0 cumulative IPC: 1.2345'' @ rest) =
     Some [''1.2345'' @ rest, rest, rest]"
proof -
  have e: "match_here [Star isdecimal, Mark] rest = Some [rest, rest]"
    using assms by (rule digits_end)
  show ?thesis
    by (simp add: pat_eval char_eval e)
qed

lemma per_core_embedded:
  assumes "\<forall>k < length before.
      match_here pat_cpu_cumulative (drop k (before @ ''CPU 0 cumulative IPC: 1.2345'' @ rest)) = None"
    and "rest = [] \<or> \<not> isdecimal (hd rest)"
  shows "strategy_per_core (before @ ''CPU 0 cumulative IPC: 1.2345'' @ rest) = Some 1.2345"
proof -
  have "search pat_cpu_cumulative (before @ ''CPU 0 cumulative IPC: 1.2345'' @ rest) =
      search pat_cpu_cumulative (''CPU 0 cumulative IPC: 1.2345'' @ rest)"
    using assms(1) by (rule search_skip)
  also have "\<dots> = Some [''1.2345'' @ rest, rest, rest]"
    using per_core_line [OF assms(2)] by simp
  finally have s: "search pat_cpu_cumulative (before @ ''CPU 0 cumulative IPC: 1.2345'' @ rest) =
      Some [''1.2345'' @ rest, rest, rest]" .
  have g: "group1 [''1.2345'' @ rest, rest, rest] = ''1.2345''"
    by (simp add: between_def)
  show ?thesis
    unfolding strategy_per_core_def s by (simp only: option.map g float_1_2345)
qed

text \<open>
  C2, amended. For every run output, \<open>parse_ipc\<close> tries four strategies in this order
  and returns the value of the first that yields one: (a) the leftmost match of the
  per-core cumulative pattern, (b) the leftmost match of the summary pattern, (c) the last
  match of its tolerant cumulative pattern, which yields a value exactly when that pattern
  is found anywhere, (d) total instructions over total cycles when both are found and the
  cycles are not 0. When none yields a value it raises the error "IPC not found" and
  returns no number; only then does it print, and of the output it prints the last 500
  characters, the whole output when that is shorter. An output yields 1.2345 when its
  first per-core report is \<open>CPU 0 cumulative IPC: 1.2345\<close>: no match of the per-core
  pattern starts before it and no digit follows it. An earlier per-core report takes
  precedence. The output with only \<open>Total Instructions: 1000\<close> and
  \<open>Total Cycles: 500\<close> yields 2; with \<open>Total Cycles: 0\<close> it raises.
\<close>

theorem parse_ipc_first_strategy:
  "snd (parse_ipc output) =
     (case search pat_cpu_cumulative output of
        Some m \<Rightarrow> Inr (py_float (group1 m))
      | None \<Rightarrow>
         (case search pat_overall output of
            Some m \<Rightarrow> Inr (py_float (group1 m))
          | None \<Rightarrow>
             (if search pat_cmmulative output \<noteq> None
              then Inr (py_float (last (findall pat_cmmulative output)))
              else
                (case search pat_total_instructions output of
                   None \<Rightarrow> Inl (RuntimeError ''IPC not found in simulator output.'')
                 | Some mi \<Rightarrow>
                    (case search pat_total_cycles output of
                       None \<Rightarrow> Inl (RuntimeError ''IPC not found in simulator output.'')
                     | Some mc \<Rightarrow>
                        (if 0 < py_int (group1 mc)
                         then Inr (real (py_int (group1 mi)) / real (py_int (group1 mc)))
                         else Inl (RuntimeError ''IPC not found in simulator output.''))))))) \<and>
   fst (parse_ipc output) =
     (case snd (parse_ipc output) of
        Inr v \<Rightarrow> []
      | Inl e \<Rightarrow> [''IPC not found; last 500 chars of output:'', replicate 60 CHR ''='',
                  tail_chars 500 output, replicate 60 CHR ''='']) \<and>
   length (tail_chars 500 output) = min 500 (length output) \<and>
   (\<exists>before. output = before @ tail_chars 500 output) \<and>
   (findall pat_cmmulative output = [] \<longleftrightarrow> search pat_cmmulative output = None) \<and>
   ((\<forall>k < length before.
       match_here pat_cpu_cumulative
         (drop k (before @ ''CPU 0 cumulative IPC: 1.2345'' @ rest)) = None) \<and>
    (rest = [] \<or> \<not> isdecimal (hd rest)) \<longrightarrow>
      snd (parse_ipc (before @ ''CPU 0 cumulative IPC: 1.2345'' @ rest)) = Inr 1.2345) \<and>
   snd (parse_ipc ''CPU 0 cumulative IPC: 1.2345'') = Inr 1.2345 \<and>
   snd (parse_ipc ''Overall IPC: 0.75'') = Inr (3 / 4) \<and>
   snd (parse_ipc ''Heartbeat cummulative IPC: 0.5\<newline>Finished cummulative IPC: 0.75'') =
     Inr (3 / 4) \<and>
   snd (parse_ipc ''Total Instructions: 1000\<newline>Total Cycles: 500'') = Inr 2 \<and>
   snd (parse_ipc ''Total Instructions: 1000\<newline>Total Cycles: 0'') =
     Inl (RuntimeError ''IPC not found in simulator output.'') \<and>
   snd (parse_ipc ''Simulation complete'') =
     Inl (RuntimeError ''IPC not found in simulator output.'')"
proof (intro conjI impI)
  show "snd (parse_ipc output) =
     (case search pat_cpu_cumulative output of
        Some m \<Rightarrow> Inr (py_float (group1 m))
      | None \<Rightarrow>
         (case search pat_overall output of
            Some m \<Rightarrow> Inr (py_float (group1 m))
          | None \<Rightarrow>
             (if search pat_cmmulative output \<noteq> None
              then Inr (py_float (last (findall pat_cmmulative output)))
              else
                (case search pat_total_instructions output of
                   None \<Rightarrow> Inl (RuntimeError ''IPC not found in simulator output.'')
                 | Some mi \<Rightarrow>
                    (case search pat_total_cycles output of
                       None \<Rightarrow> Inl (RuntimeError ''IPC not found in simulator output.'')
                     | Some mc \<Rightarrow>
                        (if 0 < py_int (group1 mc)
                         then Inr (real (py_int (group1 mi)) / real (py_int (group1 mc)))
                         else Inl (RuntimeError ''IPC not found in simulator output.'')))))))"
    by (simp only: parse_ipc_chain ipc_not_found_def)
  show "fst (parse_ipc output) =
     (case snd (parse_ipc output) of
        Inr v \<Rightarrow> []
      | Inl e \<Rightarrow> [''IPC not found; last 500 chars of output:'', replicate 60 CHR ''='',
                  tail_chars 500 output, replicate 60 CHR ''=''])"
    by (simp only: parse_ipc_printed ipc_debug_dump_def)
  show "length (tail_chars 500 output) = min 500 (length output)"
    by (rule tail_chars_length)
  show "\<exists>before. output = before @ tail_chars 500 output"
    using tail_chars_suffix [of "output" 500] by metis
  show "(findall pat_cmmulative output = []) = (search pat_cmmulative output = None)"
    by (rule findall_empty_iff)
  show "snd (parse_ipc ''CPU 0 cumulative IPC: 1.2345'') = Inr 1.2345"
    by (rule examples_evaluated)
  show "snd (parse_ipc ''Overall IPC: 0.75'') = Inr (3 / 4)"
    by (rule examples_evaluated)
  show "snd (parse_ipc ''Heartbeat cummulative IPC: 0.5\<newline>Finished cummulative IPC: 0.75'') =
     Inr (3 / 4)"
    by (rule examples_evaluated)
  show "snd (parse_ipc ''Total Instructions: 1000\<newline>Total Cycles: 500'') = Inr 2"
    by (rule examples_evaluated)
  show "snd (parse_ipc ''Total Instructions: 1000\<newline>Total Cycles: 0'') =
     Inl (RuntimeError ''IPC not found in simulator output.'')"
    using examples_evaluated(5) by (simp only: ipc_not_found_def)
  show "snd (parse_ipc ''Simulation complete'') =
     Inl (RuntimeError ''IPC not found in simulator output.'')"
    using examples_evaluated(6) by (simp only: ipc_not_found_def)
  assume h: "(\<forall>k < length before.
       match_here pat_cpu_cumulative
         (drop k (before @ ''CPU 0 cumulative IPC: 1.2345'' @ rest)) = None) \<and>
    (rest = [] \<or> \<not> isdecimal (hd rest))"
  from h have h1: "\<forall>k < length before.
       match_here pat_cpu_cumulative
         (drop k (before @ ''CPU 0 cumulative IPC: 1.2345'' @ rest)) = None"
    by (rule conjunct1)
  from h have h2: "rest = [] \<or> \<not> isdecimal (hd rest)"
    by (rule conjunct2)
  have "strategy_per_core (before @ ''CPU 0 cumulative IPC: 1.2345'' @ rest) = Some 1.2345"
    using h1 h2 by (rule per_core_embedded)
  then show "snd (parse_ipc (before @ ''CPU 0 cumulative IPC: 1.2345'' @ rest)) = Inr 1.2345"
    by (rule parse_ipc_per_core)
qed

theorem parse_ipc_first_strategy_witness:
  "match_here pat_cpu_cumulative
     (drop 0 (''#'' @ ''CPU 0 cumulative IPC: 1.2345'' @ ''\<newline>LLC TOTAL'')) = None \<and>
   \<not> isdecimal (hd ''\<newline>LLC TOTAL'') \<and>
   snd (parse_ipc (''#'' @ ''CPU 0 cumulative IPC: 1.2345'' @ ''\<newline>LLC TOTAL'')) = Inr 1.2345"
proof -
  have a: "match_here pat_cpu_cumulative
     (drop 0 (''#'' @ ''CPU 0 cumulative IPC: 1.2345'' @ ''\<newline>LLC TOTAL'')) = None"
    by (simp add: pat_eval char_eval)
  have b: "\<not> isdecimal (hd ''\<newline>LLC TOTAL'')"
    by (simp add: char_eval)
  have c: "\<forall>k < length ''#''. match_here pat_cpu_cumulative
     (drop k (''#'' @ ''CPU 0 cumulative IPC: 1.2345'' @ ''\<newline>LLC TOTAL'')) = None"
  proof (intro allI impI)
    fix k :: nat
    assume "k < length ''#''"
    then have "k = 0" by simp
    with a show "match_here pat_cpu_cumulative
       (drop k (''#'' @ ''CPU 0 cumulative IPC: 1.2345'' @ ''\<newline>LLC TOTAL'')) = None"
      by (simp only:)
  qed
  note imp = parse_ipc_first_strategy [of "[]" "''#''" "''\<newline>LLC TOTAL''",
      THEN conjunct2, THEN conjunct2, THEN conjunct2, THEN conjunct2, THEN conjunct2,
      THEN conjunct1]
  have r: "snd (parse_ipc (''#'' @ ''CPU 0 cumulative IPC: 1.2345'' @ ''\<newline>LLC TOTAL'')) =
      Inr 1.2345"
    by (rule mp [OF imp]) (intro conjI c disjI2 b)
  show ?thesis by (intro conjI a b r)
qed

text \<open>
  The claim as written fails: an output that contains \<open>CPU 0 cumulative IPC: 1.2345\<close>
  after an earlier per-core report yields the earlier value.
\<close>

lemma earlier_report:
  "strategy_per_core ''CPU 0 cumulative IPC: 0.5\<newline>CPU 0 cumulative IPC: 1.2345'' = Some (1 / 2)"
proof -
  have "search pat_cpu_cumulative ''CPU 0 cumulative IPC: 0.5\<newline>CPU 0 cumulative IPC: 1.2345'' =
     Some [''0.5\<newline>CPU 0 cumulative IPC: 1.2345'', ''\<newline>CPU 0 cumulative IPC: 1.2345'',
           ''\<newline>CPU 0 cumulative IPC: 1.2345'']"
    by (simp add: pat_eval char_eval)
  then show ?thesis
    by (simp add: strategy_per_core_def between_def float_0_5 del: search.simps)
qed

theorem earlier_report_counterexample:
  "snd (parse_ipc ''CPU 0 cumulative IPC: 0.5\<newline>CPU 0 cumulative IPC: 1.2345'') = Inr (1 / 2) \<and>
   snd (parse_ipc ''CPU 0 cumulative IPC: 0.5\<newline>CPU 0 cumulative IPC: 1.2345'') \<noteq> Inr 1.2345"
proof -
  have "snd (parse_ipc ''CPU 0 cumulative IPC: 0.5\<newline>CPU 0 cumulative IPC: 1.2345'') =
      Inr (1 / 2)"
    using earlier_report by (rule parse_ipc_per_core)
  then show ?thesis by simp
qed

lemma two_per_core_lines:
  "strategy_per_core ''CPU 0 cumulative IPC: 1.0\<newline>CPU 0 cumulative IPC: 2.0'' = Some 1"
proof -
  have "group1 (the (search pat_cpu_cumulative
          ''CPU 0 cumulative IPC: 1.0\<newline>CPU 0 cumulative IPC: 2.0'')) = ''1.0''"
    by (simp add: pat_eval char_eval)
  moreover have "search pat_cpu_cumulative
          ''CPU 0 cumulative IPC: 1.0\<newline>CPU 0 cumulative IPC: 2.0'' \<noteq> None"
    by (simp add: pat_eval char_eval)
  ultimately show ?thesis
    by (auto simp: strategy_per_core_def float_1_0 simp del: search.simps)
qed

lemma two_tolerant_lines:
  "strategy_per_core ''cummulative IPC: 1.0\<newline>cummulative IPC: 2.0'' = None"
  "strategy_summary ''cummulative IPC: 1.0\<newline>cummulative IPC: 2.0'' = None"
  "findall pat_cmmulative ''cummulative IPC: 1.0\<newline>cummulative IPC: 2.0'' = [''1.0'', ''2.0'']"
  by (simp_all add: strategy_per_core_def strategy_summary_def findall.simps pat_eval char_eval)

text \<open>
  C3, amended. The last match wins among the matches of the tolerant cumulative pattern,
  and only when neither the per-core pattern nor the summary pattern is found: then
  \<open>parse_ipc\<close> returns the value of the last match in the output. When the per-core
  pattern is found, \<open>parse_ipc\<close> returns the value of its leftmost match.
\<close>

theorem last_tolerant_match_wins:
  "(strategy_per_core output = None \<and> strategy_summary output = None \<and>
    findall pat_cmmulative output \<noteq> [] \<longrightarrow>
      snd (parse_ipc output) = Inr (py_float (last (findall pat_cmmulative output)))) \<and>
   (search pat_cpu_cumulative output = Some m \<longrightarrow>
      snd (parse_ipc output) = Inr (py_float (group1 m)))"
proof (intro conjI impI)
  assume "strategy_per_core output = None \<and> strategy_summary output = None \<and>
    findall pat_cmmulative output \<noteq> []"
  then show "snd (parse_ipc output) = Inr (py_float (last (findall pat_cmmulative output)))"
    by (intro parse_ipc_tolerant) simp_all
next
  assume "search pat_cpu_cumulative output = Some m"
  then have "strategy_per_core output = Some (py_float (group1 m))"
    by (simp add: strategy_per_core_def)
  then show "snd (parse_ipc output) = Inr (py_float (group1 m))"
    by (rule parse_ipc_per_core)
qed

theorem last_tolerant_match_wins_witness:
  "strategy_per_core ''cummulative IPC: 1.0\<newline>cummulative IPC: 2.0'' = None \<and>
   strategy_summary ''cummulative IPC: 1.0\<newline>cummulative IPC: 2.0'' = None \<and>
   findall pat_cmmulative ''cummulative IPC: 1.0\<newline>cummulative IPC: 2.0'' \<noteq> [] \<and>
   snd (parse_ipc ''cummulative IPC: 1.0\<newline>cummulative IPC: 2.0'') = Inr 2 \<and>
   search pat_cpu_cumulative ''CPU 0 cumulative IPC: 1.0\<newline>CPU 0 cumulative IPC: 2.0'' =
     Some [''1.0\<newline>CPU 0 cumulative IPC: 2.0'', ''\<newline>CPU 0 cumulative IPC: 2.0'',
           ''\<newline>CPU 0 cumulative IPC: 2.0''] \<and>
   snd (parse_ipc ''CPU 0 cumulative IPC: 1.0\<newline>CPU 0 cumulative IPC: 2.0'') = Inr 1"
proof -
  have s: "search pat_cpu_cumulative ''CPU 0 cumulative IPC: 1.0\<newline>CPU 0 cumulative IPC: 2.0'' =
     Some [''1.0\<newline>CPU 0 cumulative IPC: 2.0'', ''\<newline>CPU 0 cumulative IPC: 2.0'',
           ''\<newline>CPU 0 cumulative IPC: 2.0'']"
    by (simp add: pat_eval char_eval)
  have g: "group1 [''1.0\<newline>CPU 0 cumulative IPC: 2.0'', ''\<newline>CPU 0 cumulative IPC: 2.0'',
           ''\<newline>CPU 0 cumulative IPC: 2.0''] = ''1.0''"
    by (simp add: between_def)
  show ?thesis
    using last_tolerant_match_wins
      [of "''cummulative IPC: 1.0\<newline>cummulative IPC: 2.0''" "[]"]
      last_tolerant_match_wins
      [of "''CPU 0 cumulative IPC: 1.0\<newline>CPU 0 cumulative IPC: 2.0''"
          "[''1.0\<newline>CPU 0 cumulative IPC: 2.0'', ''\<newline>CPU 0 cumulative IPC: 2.0'',
            ''\<newline>CPU 0 cumulative IPC: 2.0'']"]
    by (simp add: two_tolerant_lines float_2_0 float_1_0 s g del: search.simps group1.simps)
qed

text \<open>
  The claim as written fails: of two per-core cumulative lines with the values 1.0 and
  2.0, in that order, the first is returned.
\<close>

theorem two_cumulative_lines_counterexample:
  "snd (parse_ipc ''CPU 0 cumulative IPC: 1.0\<newline>CPU 0 cumulative IPC: 2.0'') = Inr 1 \<and>
   snd (parse_ipc ''CPU 0 cumulative IPC: 1.0\<newline>CPU 0 cumulative IPC: 2.0'') \<noteq> Inr 2"
proof -
  have "snd (parse_ipc ''CPU 0 cumulative IPC: 1.0\<newline>CPU 0 cumulative IPC: 2.0'') = Inr 1"
    using two_per_core_lines by (rule parse_ipc_per_core)
  then show ?thesis by simp
qed

section \<open>The hit-rate extractors\<close>

lemma py_int_0: "py_int ''0'' = 0"
  by (simp add: py_int_def digit_val_def char_eval)

text \<open>
  C10. For every run output in which the \<open>LLC TOTAL\<close> line that the pattern finds
  reports an access count of 0, \<open>parse_hit_rate\<close> returns 0.0 and raises nothing, and
  \<open>parse_cache_hit_rate\<close> returns 0.0 and not \<open>None\<close>.
\<close>

theorem zero_access_hit_rate:
  "search pat_llc_total output = Some m \<Longrightarrow> py_int (group1 m) = 0 \<Longrightarrow>
     parse_hit_rate output = Inr 0 \<and> parse_cache_hit_rate output = Some 0"
  by (simp add: parse_hit_rate_def parse_cache_hit_rate_def)

theorem zero_access_hit_rate_witness:
  "search pat_llc_total ''LLC TOTAL     ACCESS:          0  HIT:          0  MISS:          0'' =
     Some [''0  HIT:          0  MISS:          0'', ''  HIT:          0  MISS:          0'',
           ''0  MISS:          0'', ''  MISS:          0'', ''  MISS:          0''] \<and>
   py_int ''0'' = 0 \<and>
   parse_hit_rate ''LLC TOTAL     ACCESS:          0  HIT:          0  MISS:          0'' = Inr 0 \<and>
   parse_cache_hit_rate ''LLC TOTAL     ACCESS:          0  HIT:          0  MISS:          0'' = Some 0"
proof -
  have s: "search pat_llc_total ''LLC TOTAL     ACCESS:          0  HIT:          0  MISS:          0'' =
     Some [''0  HIT:          0  MISS:          0'', ''  HIT:          0  MISS:          0'',
           ''0  MISS:          0'', ''  MISS:          0'', ''  MISS:          0'']"
    by (simp add: pat_eval char_eval)
  have g: "py_int (group1 [''0  HIT:          0  MISS:          0'', ''  HIT:          0  MISS:          0'',
           ''0  MISS:          0'', ''  MISS:          0'', ''  MISS:          0'']) = 0"
    by (simp add: between_def py_int_0)
  show ?thesis
    using zero_access_hit_rate [OF s g] s py_int_0 by (simp del: search.simps)
qed

section \<open>The search loop: the recorded rows only grow\<close>

lemma evaluate_workloads_extends:
  "evaluate_workloads sb nm ds f ts tot pw db0 = (db', r) \<Longrightarrow>
     \<exists>rows. db' = db0 @ rows \<and> (\<forall>x \<in> set rows. exp_workload x \<in> wl_name ` set ts)"
proof (induction ts arbitrary: tot pw db0)
  case Nil
  then show ?case by simp
next
  case (Cons t ts)
  show ?case
  proof (cases "run_policy sb f (trace_path t)")
    case (Inl e)
    with Cons.prems show ?thesis by simp
  next
    case (Inr out)
    show ?thesis
    proof (cases "parse_hit_rate out")
      case (Inl e)
      with Inr Cons.prems show ?thesis by simp
    next
      case hit: (Inr hit)
      from Cons.prems Inr hit obtain rows where
        "db' = (db0 @ [\<lparr>exp_workload = wl_name t, exp_policy = nm, exp_description = ds,
                        exp_cc = f, exp_rate = hit\<rparr>]) @ rows"
        "\<forall>x \<in> set rows. exp_workload x \<in> wl_name ` set ts"
        using Cons.IH by fastforce
      then show ?thesis by auto
    qed
  qed
qed

lemma workload_names_not_all: "''all'' \<notin> wl_name ` set workloads"
  by (simp add: workloads_def WORKLOADS_def)

lemma candidate_slot_extends:
  assumes "candidate_slot w i j db0 = (db', r)"
  shows "\<exists>rows. db' = db0 @ rows \<and> (\<forall>x \<in> set rows. exp_workload x \<noteq> ''all'')"
proof -
  have "\<exists>rows. db' = db0 @ rows \<and> (\<forall>x \<in> set rows. exp_workload x \<in> wl_name ` set workloads)"
    using assms
    by (auto simp: candidate_slot_def Let_def
        split: option.splits sum.splits prod.splits if_splits
        dest!: evaluate_workloads_extends)
  then show ?thesis using workload_names_not_all by metis
qed

lemma candidates_loop_extends:
  "candidates_loop w i js rs db0 = (db', r) \<Longrightarrow>
     \<exists>rows. db' = db0 @ rows \<and> (\<forall>x \<in> set rows. exp_workload x \<noteq> ''all'')"
proof (induction js arbitrary: rs db0)
  case Nil
  then show ?case by simp
next
  case (Cons j js)
  obtain db1 r1 where s: "candidate_slot w i j db0 = (db1, r1)" by (cases "candidate_slot w i j db0")
  then obtain rows1 where r1: "db1 = db0 @ rows1" "\<forall>x \<in> set rows1. exp_workload x \<noteq> ''all''"
    using candidate_slot_extends by blast
  show ?case
  proof (cases r1)
    case (Inl e)
    with Cons.prems s r1 show ?thesis by auto
  next
    case (Inr oc)
    then obtain rs1 where "candidates_loop w i js rs1 db1 = (db', r)"
      using Cons.prems s by (cases oc) auto
    then obtain rows2 where "db' = db1 @ rows2" "\<forall>x \<in> set rows2. exp_workload x \<noteq> ''all''"
      using Cons.IH by blast
    with r1 show ?thesis by auto
  qed
qed

section \<open>The search loop: one iteration\<close>

lemma feedback_step_best:
  "best_hit (feedback_step i st) =
     (if i = 0 then best_hit st else max (best_hit st) (current_hit st))"
  by (simp add: feedback_step_def)

lemma feedback_step_others:
  "current_hit (feedback_step i st) = current_hit st"
  "db (feedback_step i st) = db st"
  "prev (feedback_step i st) = prev st"
  by (simp_all add: feedback_step_def)

text \<open>What an iteration does, by the result of its candidate loop.\<close>

lemma iteration_raised:
  "candidates_loop w i [0..<CANDIDATES] [] (db (feedback_step i st)) = (db', Inl e) \<Longrightarrow>
     iteration w i st = Raised e ((feedback_step i st)\<lparr>db := db'\<rparr>)"
  by (simp add: iteration_def Let_def)

lemma iteration_skipped:
  "candidates_loop w i [0..<CANDIDATES] [] (db (feedback_step i st)) = (db', Inr []) \<Longrightarrow>
     iteration w i st = Next ((feedback_step i st)\<lparr>db := db'\<rparr>)"
  by (simp add: iteration_def Let_def)

lemma iteration_chosen:
  "candidates_loop w i [0..<CANDIDATES] [] (db (feedback_step i st)) = (db', Inr (c # cs)) \<Longrightarrow>
     iteration w i st =
       (if early_exit (record_chosen (max_from c cs) db' (feedback_step i st))
        then Break (record_chosen (max_from c cs) db' (feedback_step i st))
        else Next (record_chosen (max_from c cs) db' (feedback_step i st)))"
  by (simp add: iteration_def Let_def)

lemma candidates_loop_cases:
  obtains (raised) db' e where
      "candidates_loop w i [0..<CANDIDATES] [] (db (feedback_step i st)) = (db', Inl e)"
  | (skipped) db' where
      "candidates_loop w i [0..<CANDIDATES] [] (db (feedback_step i st)) = (db', Inr [])"
  | (chosen) db' c cs where
      "candidates_loop w i [0..<CANDIDATES] [] (db (feedback_step i st)) = (db', Inr (c # cs))"
proof (cases "candidates_loop w i [0..<CANDIDATES] [] (db (feedback_step i st))")
  case (Pair db' r)
  show ?thesis
  proof (cases r)
    case (Inl e)
    with Pair raised show ?thesis by simp
  next
    case (Inr rs)
    with Pair skipped chosen show ?thesis by (cases rs) simp_all
  qed
qed

lemma record_chosen_fields:
  "best_hit (record_chosen b db' st) = best_hit st"
  "current_hit (record_chosen b db' st) = avg_hit b"
  "db (record_chosen b db' st) =
     db' @ [\<lparr>exp_workload = ''all'', exp_policy = name b, exp_description = desc b,
              exp_cc = cc b, exp_rate = avg_hit b\<rparr>]"
  by (simp_all add: record_chosen_def)

lemma iteration_best_hit:
  "best_hit (flow_state (iteration w i st)) = best_hit (feedback_step i st)"
  by (cases rule: candidates_loop_cases [of w i st])
    (simp_all add: iteration_raised iteration_skipped iteration_chosen record_chosen_fields)

lemma iteration_mono: "best_hit st \<le> best_hit (flow_state (iteration w i st))"
  by (simp add: iteration_best_hit feedback_step_best)

section \<open>The best score over a run\<close>

lemma history_Cons: "\<exists>rest. history w js st = st # rest"
  by (cases js) simp_all

lemma history_least: "s \<in> set (history w js st) \<Longrightarrow> best_hit st \<le> best_hit s"
proof (induction js arbitrary: st)
  case Nil
  then show ?case by simp
next
  case (Cons i js)
  have m: "best_hit st \<le> best_hit (flow_state (iteration w i st))" by (rule iteration_mono)
  from Cons.prems consider "s = st"
    | st' where "iteration w i st = Next st'" "s \<in> set (history w js st')"
    | "s = flow_state (iteration w i st)"
    by (cases "iteration w i st") auto
  then show ?case
  proof cases
    case 1
    then show ?thesis by simp
  next
    case 2
    with Cons.IH [of st'] m show ?thesis by fastforce
  next
    case 3
    with m show ?thesis by simp
  qed
qed

lemma history_sorted: "sorted_wrt (\<lambda>a b. best_hit a \<le> best_hit b) (history w js st)"
proof (induction js arbitrary: st)
  case Nil
  then show ?case by simp
next
  case (Cons i js)
  have m: "best_hit st \<le> best_hit (flow_state (iteration w i st))" by (rule iteration_mono)
  show ?case
  proof (cases "iteration w i st")
    case (Next st')
    with m have "\<forall>s \<in> set (history w js st'). best_hit st \<le> best_hit s"
      using history_least [of _ w js st'] by fastforce
    with Next Cons.IH [of st'] show ?thesis by simp
  next
    case (Break st')
    with m show ?thesis by simp
  next
    case (Raised e st')
    with m show ?thesis by simp
  qed
qed

text \<open>Two consecutive states of the history are the two ends of one iteration.\<close>

lemma history_step:
  "Suc k < length (history w js st) \<Longrightarrow>
     \<exists>i \<in> set js. history w js st ! Suc k = flow_state (iteration w i (history w js st ! k))"
proof (induction js arbitrary: st k)
  case Nil
  then show ?case by simp
next
  case (Cons i js)
  show ?case
  proof (cases "iteration w i st")
    case (Next st')
    obtain rest where rest: "history w js st' = st' # rest" using history_Cons by blast
    show ?thesis
    proof (cases k)
      case 0
      with Next rest show ?thesis by simp
    next
      case (Suc k')
      with Cons.prems Next have "Suc k' < length (history w js st')" by simp
      from Cons.IH [OF this] Next Suc show ?thesis by auto
    qed
  next
    case (Break st')
    with Cons.prems show ?thesis by (cases k) simp_all
  next
    case (Raised e st')
    with Cons.prems show ?thesis by (cases k) simp_all
  qed
qed

lemma run_invariant_init: "run_invariant best0 (init best0)"
  by (simp add: run_invariant_def init_def)

lemma chosen_scores_extended:
  "\<forall>x \<in> set rows. exp_workload x \<noteq> ''all'' \<Longrightarrow>
     chosen_scores (st\<lparr>db := db st @ rows\<rparr>) = chosen_scores st"
  by (simp add: chosen_scores_def)

lemma chosen_scores_record:
  "chosen_scores (record_chosen b db' st) =
     map exp_rate (filter (\<lambda>r. exp_workload r = ''all'') db') @ [avg_hit b]"
  by (simp add: chosen_scores_def record_chosen_fields)

lemma run_invariant_iteration:
  assumes "run_invariant best0 st"
  shows "run_invariant best0 (flow_state (iteration w i st))"
proof -
  let ?st1 = "feedback_step i st"
  have b: "best0 \<le> best_hit ?st1"
    using assms by (auto simp: run_invariant_def feedback_step_best)
  have c: "current_hit st = best0 \<or> current_hit st \<in> set (chosen_scores st)"
    using assms by (simp add: run_invariant_def)
  have keep: "chosen_scores (?st1\<lparr>db := db'\<rparr>) = chosen_scores st"
    if "candidates_loop w i [0..<CANDIDATES] [] (db ?st1) = (db', r)" for db' r
  proof -
    from candidates_loop_extends [OF that] obtain rows where
      "db' = db st @ rows" "\<forall>x \<in> set rows. exp_workload x \<noteq> ''all''"
      by (auto simp: feedback_step_others)
    then show ?thesis by (simp add: chosen_scores_def feedback_step_others)
  qed
  show ?thesis
  proof (cases rule: candidates_loop_cases [of w i st])
    case (raised db' e)
    with b c keep [OF raised] show ?thesis
      by (simp add: iteration_raised run_invariant_def feedback_step_others)
  next
    case (skipped db')
    with b c keep [OF skipped] show ?thesis
      by (simp add: iteration_skipped run_invariant_def feedback_step_others)
  next
    case (chosen db' c cs)
    with b show ?thesis
      by (simp add: iteration_chosen run_invariant_def record_chosen_fields
          chosen_scores_record)
  qed
qed

lemma run_invariant_history:
  "run_invariant best0 st \<Longrightarrow> s \<in> set (history w js st) \<Longrightarrow> run_invariant best0 s"
proof (induction js arbitrary: st)
  case Nil
  then show ?case by simp
next
  case (Cons i js)
  have n: "run_invariant best0 (flow_state (iteration w i st))"
    using Cons.prems(1) by (rule run_invariant_iteration)
  from Cons.prems(2) consider "s = st"
    | st' where "iteration w i st = Next st'" "s \<in> set (history w js st')"
    | "s = flow_state (iteration w i st)"
    by (cases "iteration w i st") auto
  then show ?case
  proof cases
    case 1
    with Cons.prems show ?thesis by simp
  next
    case 2
    with n Cons.IH [of st'] show ?thesis by simp
  next
    case 3
    with n show ?thesis by simp
  qed
qed

lemma history_final: "flow_state (iterations w js st) = last (history w js st)"
proof (induction js arbitrary: st)
  case Nil
  then show ?case by simp
next
  case (Cons i js)
  obtain rest where "\<And>st'. \<exists>rest. history w js st' = st' # rest" using history_Cons by blast
  then have ne: "\<And>st'. history w js st' \<noteq> []" by (metis list.distinct(1))
  show ?case
    by (cases "iteration w i st") (simp_all add: Cons.IH ne)
qed

text \<open>
  C5. Over any run of \<open>main\<close>, with \<open>h\<close> the states before the first and after each
  iteration: \<open>best_hit\<close> never decreases from an earlier state to a later one; and between
  two consecutive states it changes only to a strictly greater value, which is the score
  recorded for a chosen candidate.
\<close>

theorem best_hit_monotone:
  "(i \<le> j \<and> j < length (history w [0..<ITERATIONS] (init best0)) \<longrightarrow>
      best_hit (history w [0..<ITERATIONS] (init best0) ! i)
        \<le> best_hit (history w [0..<ITERATIONS] (init best0) ! j)) \<and>
   (Suc k < length (history w [0..<ITERATIONS] (init best0)) \<and>
    best_hit (history w [0..<ITERATIONS] (init best0) ! Suc k)
      \<noteq> best_hit (history w [0..<ITERATIONS] (init best0) ! k) \<longrightarrow>
      best_hit (history w [0..<ITERATIONS] (init best0) ! k)
        < best_hit (history w [0..<ITERATIONS] (init best0) ! Suc k) \<and>
      best_hit (history w [0..<ITERATIONS] (init best0) ! Suc k)
        \<in> set (chosen_scores (history w [0..<ITERATIONS] (init best0) ! k))) \<and>
   flow_state (main w best0) = last (history w [0..<ITERATIONS] (init best0))"
proof (intro conjI impI)
  let ?h = "history w [0..<ITERATIONS] (init best0)"
  show "flow_state (main w best0) = last ?h"
    by (simp add: main_def history_final)
  {
    assume a: "i \<le> j \<and> j < length ?h"
    show "best_hit (?h ! i) \<le> best_hit (?h ! j)"
    proof (cases "i = j")
      case True
      then show ?thesis by simp
    next
      case False
      with a have "i < j" "j < length ?h" by simp_all
      with history_sorted [of w "[0..<ITERATIONS]" "init best0"] show ?thesis
        by (simp add: sorted_wrt_iff_nth_less)
    qed
  }
  {
    assume a: "Suc k < length ?h \<and> best_hit (?h ! Suc k) \<noteq> best_hit (?h ! k)"
    then obtain i where i: "?h ! Suc k = flow_state (iteration w i (?h ! k))"
      using history_step [of k w "[0..<ITERATIONS]" "init best0"] by blast
    have "?h ! k \<in> set ?h" using a by simp
    then have inv: "run_invariant best0 (?h ! k)"
      using run_invariant_history [OF run_invariant_init] by blast
    have eq: "best_hit (?h ! Suc k) = best_hit (feedback_step i (?h ! k))"
      by (simp add: i iteration_best_hit)
    with a have upd: "i \<noteq> 0" "best_hit (?h ! k) < current_hit (?h ! k)"
      "best_hit (?h ! Suc k) = current_hit (?h ! k)"
      by (auto simp: feedback_step_def split: if_splits)
    then show "best_hit (?h ! k) < best_hit (?h ! Suc k)" by simp
    from inv upd show "best_hit (?h ! Suc k) \<in> set (chosen_scores (?h ! k))"
      by (auto simp: run_invariant_def)
  }
qed

section \<open>The example inputs, evaluated\<close>

lemmas section_eval =
  pat_policy_name_def pat_policy_description_def pat_cpp_fence_def section_pattern_def
  lit_def between_def extract_re_def strip_def strip_with_def

lemma good_response_parsed:
  "parse_policy_content good_response =
     (Some ''LRU Plus'', Some ''Keeps hot lines.'', Some ''int x;'')"
proof -
  have "extract_re pat_policy_name good_response = Some ''LRU Plus''"
    by (simp add: good_response_def section_eval char_eval)
  moreover have "extract_re pat_policy_description good_response = Some ''Keeps hot lines.''"
    by (simp add: good_response_def section_eval char_eval)
  moreover have "extract_re pat_cpp_fence good_response = Some ''int x;''"
    by (simp add: good_response_def section_eval char_eval)
  ultimately show ?thesis by (simp add: parse_policy_content_def)
qed

lemma no_code_response_parsed:
  "extract_re pat_policy_name no_code_response = Some ''LRU Plus''"
  "extract_re pat_policy_description no_code_response = Some ''Keeps hot lines.''"
  "extract_re pat_cpp_fence no_code_response = None"
  by (simp_all add: no_code_response_def section_eval char_eval)

lemma sanitize_lru_plus: "sanitize ''LRU Plus'' = ''lru_plus''"
  by code_simp

lemma sim_output_hit_rate: "parse_hit_rate sim_output = Inr (3 / 5)"
  by (simp add: parse_hit_rate_def sim_output_def pat_eval char_eval py_int_def digit_val_def)

lemma good_sandbox_evaluation:
  "evaluate_workloads good_sandbox ''LRU Plus'' ''Keeps hot lines.'' f workloads 0 [] db0 =
     (db0 @ example_rows f, Inr (3, per_wl (example_candidate f)))"
  by (simp add: workloads_def WORKLOADS_def run_policy_def good_sandbox_def sim_output_hit_rate
      example_rows_def example_row_def example_candidate_def)

lemma good_slot:
  assumes "llm w i j = Some good_response" "sandbox w = good_sandbox"
  shows "candidate_slot w i j db0 =
     (db0 @ example_rows (example_file i j), Inr (Some (example_candidate (example_file i j))))"
proof -
  have five: "length workloads = 5" by (simp add: workloads_def WORKLOADS_def)
  have ev: "evaluate_workloads good_sandbox ''LRU Plus'' ''Keeps hot lines.''
          \<lparr>cc_iteration = i, cc_slot = j, cc_base = ''lru_plus_t02''\<rparr> workloads 0 [] db0 =
     (db0 @ example_rows (example_file i j), Inr (3, per_wl (example_candidate (example_file i j))))"
    using good_sandbox_evaluation [of "example_file i j" db0] by (simp add: example_file_def)
  have c: "compile_policy good_sandbox \<lparr>cc_iteration = i, cc_slot = j, cc_base = ''lru_plus_t02''\<rparr>
      = Inr \<lparr>cc_iteration = i, cc_slot = j, cc_base = ''lru_plus_t02''\<rparr>"
    by (simp add: compile_policy_def good_sandbox_def)
  show ?thesis
    by (simp add: candidate_slot_def assms good_response_parsed sanitize_lru_plus c ev five
        example_candidate_def example_file_def Let_def)
qed

lemma failed_generation_slot: "llm w i j = None \<Longrightarrow> candidate_slot w i j db0 = (db0, Inr None)"
  by (simp add: candidate_slot_def)

lemma three_slots: "[0..<CANDIDATES] = [0, 1, 2]"
  by (simp add: CANDIDATES_def upt_rec)

lemma one_candidate_loop_0:
  "candidates_loop one_candidate_world 0 [0..<CANDIDATES] [] db0 =
     (db0 @ example_rows (example_file 0 0), Inr [example_candidate (example_file 0 0)])"
proof -
  have "candidate_slot one_candidate_world 0 0 db0 =
     (db0 @ example_rows (example_file 0 0), Inr (Some (example_candidate (example_file 0 0))))"
    by (rule good_slot) (simp_all add: one_candidate_world_def)
  moreover have "\<And>j d. j \<noteq> 0 \<Longrightarrow> candidate_slot one_candidate_world 0 j d = (d, Inr None)"
    by (rule failed_generation_slot) (simp add: one_candidate_world_def)
  ultimately show ?thesis by (simp add: three_slots)
qed

lemma one_candidate_loop_later:
  "i \<noteq> 0 \<Longrightarrow> candidates_loop one_candidate_world i [0..<CANDIDATES] [] db0 = (db0, Inr [])"
proof -
  assume "i \<noteq> 0"
  then have "\<And>j d. candidate_slot one_candidate_world i j d = (d, Inr None)"
    by (intro failed_generation_slot) (simp add: one_candidate_world_def)
  then show ?thesis by (simp add: three_slots)
qed

lemma one_candidate_iteration_0:
  "iteration one_candidate_world 0 (init (1 / 2)) =
     Next (record_chosen (example_candidate (example_file 0 0)) (example_rows (example_file 0 0))
       (init (1 / 2)))"
proof -
  have "candidates_loop one_candidate_world 0 [0..<CANDIDATES] []
          (db (feedback_step 0 (init (1 / 2)))) =
     (example_rows (example_file 0 0), Inr [example_candidate (example_file 0 0)])"
    using one_candidate_loop_0 [of "[]"] by (simp add: feedback_step_others init_def)
  from iteration_chosen [OF this] show ?thesis
    by (simp add: early_exit_def record_chosen_fields feedback_step_def init_def
        example_candidate_def)
qed

lemma one_candidate_iteration_later:
  "i \<noteq> 0 \<Longrightarrow> iteration one_candidate_world i st = Next (feedback_step i st)"
proof -
  assume "i \<noteq> 0"
  then have "candidates_loop one_candidate_world i [0..<CANDIDATES] [] (db (feedback_step i st)) =
     (db (feedback_step i st), Inr [])"
    by (rule one_candidate_loop_later)
  from iteration_skipped [OF this] show ?thesis by simp
qed

lemma iterations_from_0: "[0..<ITERATIONS] = 0 # 1 # [2..<ITERATIONS]"
  by (simp add: ITERATIONS_def upt_conv_Cons)

lemma one_candidate_history:
  "\<exists>rest. history one_candidate_world [0..<ITERATIONS] (init (1 / 2)) =
     init (1 / 2) #
     record_chosen (example_candidate (example_file 0 0)) (example_rows (example_file 0 0))
       (init (1 / 2)) #
     feedback_step 1 (record_chosen (example_candidate (example_file 0 0))
       (example_rows (example_file 0 0)) (init (1 / 2))) # rest"
  using history_Cons [of one_candidate_world "[2..<ITERATIONS]"]
  by (simp add: iterations_from_0 one_candidate_iteration_0 one_candidate_iteration_later)

theorem best_hit_monotone_witness:
  "(0::nat) \<le> 2 \<and> 2 < length (history one_candidate_world [0..<ITERATIONS] (init (1 / 2))) \<and>
   best_hit (history one_candidate_world [0..<ITERATIONS] (init (1 / 2)) ! 0)
     \<le> best_hit (history one_candidate_world [0..<ITERATIONS] (init (1 / 2)) ! 2) \<and>
   Suc 1 < length (history one_candidate_world [0..<ITERATIONS] (init (1 / 2))) \<and>
   best_hit (history one_candidate_world [0..<ITERATIONS] (init (1 / 2)) ! Suc 1)
     \<noteq> best_hit (history one_candidate_world [0..<ITERATIONS] (init (1 / 2)) ! 1) \<and>
   best_hit (history one_candidate_world [0..<ITERATIONS] (init (1 / 2)) ! 1) = 1 / 2 \<and>
   best_hit (history one_candidate_world [0..<ITERATIONS] (init (1 / 2)) ! Suc 1) = 3 / 5 \<and>
   3 / 5 \<in> set (chosen_scores (history one_candidate_world [0..<ITERATIONS] (init (1 / 2)) ! 1))"
proof -
  obtain rest where h: "history one_candidate_world [0..<ITERATIONS] (init (1 / 2)) =
     init (1 / 2) #
     record_chosen (example_candidate (example_file 0 0)) (example_rows (example_file 0 0))
       (init (1 / 2)) #
     feedback_step 1 (record_chosen (example_candidate (example_file 0 0))
       (example_rows (example_file 0 0)) (init (1 / 2))) # rest"
    using one_candidate_history by blast
  let ?h = "history one_candidate_world [0..<ITERATIONS] (init (1 / 2))"
  have z: "(0::nat) \<le> 2" by simp
  have len: "2 < length ?h" "Suc 1 < length ?h"
    by (simp_all only: h) simp_all
  have b1: "best_hit (?h ! 1) = 1 / 2"
    by (simp only: h) (simp add: record_chosen_fields init_def)
  have b2: "best_hit (?h ! Suc 1) = 3 / 5"
    by (simp only: h)
      (simp add: feedback_step_best record_chosen_fields init_def example_candidate_def)
  have neq: "best_hit (?h ! Suc 1) \<noteq> best_hit (?h ! 1)"
    unfolding b1 b2 by simp
  note t = best_hit_monotone [of 0 2 one_candidate_world "1 / 2" 1]
  have m: "best_hit (?h ! 0) \<le> best_hit (?h ! 2)"
    using t z len(1) by blast
  have "best_hit (?h ! Suc 1) \<in> set (chosen_scores (?h ! 1))"
    using t len(2) neq by blast
  then have r: "3 / 5 \<in> set (chosen_scores (?h ! 1))"
    by (simp only: b2)
  from z len m neq b1 b2 r show ?thesis by blast
qed

section \<open>The early exit\<close>



section \<open>Selection\<close>







section \<open>Parsing the generator's answer\<close>

text \<open>
  C8, amended. A slot yields a candidate only if each of the three patterns finds a match
  in the answer and none of the three extracted texts is empty: the name, the description
  and the code of the candidate are then those texts. For every answer in which one of
  the three patterns finds nothing, or in which an extracted text is empty, the slot
  yields no candidate and records nothing. A pattern takes what follows its header: the
  header of a section alone does not make the section's own text present.
\<close>

theorem candidate_needs_all_sections:
  "(candidate_slot w i j db0 = (db', Inr (Some c)) \<longrightarrow>
      (\<exists>txt. llm w i j = Some txt \<and>
         extract_re pat_policy_name txt = Some (name c) \<and>
         extract_re pat_policy_description txt = Some (desc c) \<and>
         extract_re pat_cpp_fence txt = Some (code c)) \<and>
      name c \<noteq> [] \<and> desc c \<noteq> [] \<and> code c \<noteq> []) \<and>
   (llm w i j = Some txt \<and>
    (extract_re pat_policy_name txt = None \<or> extract_re pat_policy_description txt = None \<or>
     extract_re pat_cpp_fence txt = None) \<longrightarrow>
      candidate_slot w i j db0 = (db0, Inr None)) \<and>
   (llm w i j = Some txt \<and>
    (extract_re pat_policy_name txt = Some [] \<or> extract_re pat_policy_description txt = Some [] \<or>
     extract_re pat_cpp_fence txt = Some []) \<longrightarrow>
      candidate_slot w i j db0 = (db0, Inr None))"
proof -
  have a: "(\<exists>txt. llm w i j = Some txt \<and>
         extract_re pat_policy_name txt = Some (name c) \<and>
         extract_re pat_policy_description txt = Some (desc c) \<and>
         extract_re pat_cpp_fence txt = Some (code c)) \<and>
      name c \<noteq> [] \<and> desc c \<noteq> [] \<and> code c \<noteq> []"
    if "candidate_slot w i j db0 = (db', Inr (Some c))"
    using that
    by (auto simp: candidate_slot_def parse_policy_content_def Let_def
        split: option.splits sum.splits prod.splits if_splits)
  have b: "candidate_slot w i j db0 = (db0, Inr None)"
    if "llm w i j = Some txt \<and>
      (extract_re pat_policy_name txt = None \<or> extract_re pat_policy_description txt = None \<or>
       extract_re pat_cpp_fence txt = None)"
    using that
    by (auto simp: candidate_slot_def parse_policy_content_def split: option.splits)
  have c: "candidate_slot w i j db0 = (db0, Inr None)"
    if "llm w i j = Some txt \<and>
      (extract_re pat_policy_name txt = Some [] \<or> extract_re pat_policy_description txt = Some [] \<or>
       extract_re pat_cpp_fence txt = Some [])"
    using that
    by (auto simp: candidate_slot_def parse_policy_content_def split: option.splits)
  from a b c show ?thesis by blast
qed

theorem candidate_needs_all_sections_witness:
  "candidate_slot one_candidate_world 0 0 [] =
     (example_rows (example_file 0 0), Inr (Some (example_candidate (example_file 0 0)))) \<and>
   extract_re pat_policy_name good_response = Some ''LRU Plus'' \<and>
   name (example_candidate (example_file 0 0)) = ''LRU Plus'' \<and>
   code (example_candidate (example_file 0 0)) \<noteq> [] \<and>
   llm no_code_world 0 0 = Some no_code_response \<and>
   extract_re pat_cpp_fence no_code_response = None \<and>
   candidate_slot no_code_world 0 0 [] = ([], Inr None)"
proof -
  have g: "candidate_slot one_candidate_world 0 0 [] =
     (example_rows (example_file 0 0), Inr (Some (example_candidate (example_file 0 0))))"
    using good_slot [of one_candidate_world 0 0 "[]"] by (simp add: one_candidate_world_def)
  have l: "llm no_code_world 0 0 = Some no_code_response"
    by (simp add: no_code_world_def)
  have n: "name (example_candidate (example_file 0 0)) = ''LRU Plus''"
    by (simp add: example_candidate_def)
  have e: "extract_re pat_policy_name good_response = Some ''LRU Plus''"
    using good_response_parsed by (simp add: parse_policy_content_def)
  note t = candidate_needs_all_sections [of one_candidate_world 0 0 "[]"
      "example_rows (example_file 0 0)" "example_candidate (example_file 0 0)",
      THEN conjunct1]
  note u = candidate_needs_all_sections [of no_code_world 0 0 "[]" _ _ no_code_response,
      THEN conjunct2, THEN conjunct1]
  have c: "code (example_candidate (example_file 0 0)) \<noteq> []"
    using mp [OF t g] by (elim conjE)
  have r: "candidate_slot no_code_world 0 0 [] = ([], Inr None)"
    by (rule mp [OF u]) (intro conjI l disjI2 no_code_response_parsed(3))
  show ?thesis
    by (intro conjI g e n c l no_code_response_parsed(3) r)
qed

text \<open>
  The claim as written fails: the answer that has the header of the name section but no
  name line under it yields a candidate, and the candidate's name is the line that
  follows, the header of the description.
\<close>

lemma header_only_parsed:
  "parse_policy_content header_only_response =
     (Some ''## Policy Description'', Some ''Keeps hot lines.'', Some ''int x;'')"
proof -
  have "extract_re pat_policy_name header_only_response = Some ''## Policy Description''"
    by (simp add: header_only_response_def section_eval char_eval)
  moreover have "extract_re pat_policy_description header_only_response = Some ''Keeps hot lines.''"
    by (simp add: header_only_response_def section_eval char_eval)
  moreover have "extract_re pat_cpp_fence header_only_response = Some ''int x;''"
    by (simp add: header_only_response_def section_eval char_eval)
  ultimately show ?thesis by (simp add: parse_policy_content_def)
qed

lemma sanitize_header: "sanitize ''## Policy Description'' = ''policy_description''"
  by code_simp

lemma good_sandbox_total:
  "snd (evaluate_workloads good_sandbox nm ds f workloads 0 [] db0) =
     Inr (3, [(''astar'', 3 / 5), (''lbm'', 3 / 5), (''mcf'', 3 / 5), (''milc'', 3 / 5),
              (''omnetpp'', 3 / 5)])"
  by (simp add: workloads_def WORKLOADS_def run_policy_def good_sandbox_def sim_output_hit_rate)

theorem header_without_name_counterexample:
  "llm header_only_world 0 0 = Some header_only_response \<and>
   snd (candidate_slot header_only_world 0 0 []) =
     Inr (Some \<lparr>avg_hit = 3 / 5, name = ''## Policy Description'', desc = ''Keeps hot lines.'',
                 code = ''int x;'',
                 cc = \<lparr>cc_iteration = 0, cc_slot = 0, cc_base = ''policy_description_t02''\<rparr>,
                 per_wl = [(''astar'', 3 / 5), (''lbm'', 3 / 5), (''mcf'', 3 / 5),
                           (''milc'', 3 / 5), (''omnetpp'', 3 / 5)]\<rparr>)"
proof -
  have l: "llm header_only_world 0 0 = Some header_only_response"
    by (simp add: header_only_world_def)
  have s: "sandbox header_only_world = good_sandbox"
    by (simp add: header_only_world_def)
  have five: "length workloads = 5" by (simp add: workloads_def WORKLOADS_def)
  have c: "compile_policy good_sandbox
       \<lparr>cc_iteration = 0, cc_slot = 0, cc_base = ''policy_description_t02''\<rparr> =
     Inr \<lparr>cc_iteration = 0, cc_slot = 0, cc_base = ''policy_description_t02''\<rparr>"
    by (simp add: compile_policy_def good_sandbox_def)
  obtain d r where e: "evaluate_workloads good_sandbox ''## Policy Description''
      ''Keeps hot lines.'' \<lparr>cc_iteration = 0, cc_slot = 0, cc_base = ''policy_description_t02''\<rparr>
      workloads 0 [] [] = (d, r)"
    by (cases "evaluate_workloads good_sandbox ''## Policy Description''
      ''Keeps hot lines.'' \<lparr>cc_iteration = 0, cc_slot = 0, cc_base = ''policy_description_t02''\<rparr>
      workloads 0 [] []")
  with good_sandbox_total [of "''## Policy Description''" "''Keeps hot lines.''"
      "\<lparr>cc_iteration = 0, cc_slot = 0, cc_base = ''policy_description_t02''\<rparr>" "[]"]
  have r: "r = Inr (3, [(''astar'', 3 / 5), (''lbm'', 3 / 5), (''mcf'', 3 / 5), (''milc'', 3 / 5),
              (''omnetpp'', 3 / 5)])"
    by simp
  have "snd (candidate_slot header_only_world 0 0 []) =
     Inr (Some \<lparr>avg_hit = 3 / 5, name = ''## Policy Description'', desc = ''Keeps hot lines.'',
                 code = ''int x;'',
                 cc = \<lparr>cc_iteration = 0, cc_slot = 0, cc_base = ''policy_description_t02''\<rparr>,
                 per_wl = [(''astar'', 3 / 5), (''lbm'', 3 / 5), (''mcf'', 3 / 5),
                           (''milc'', 3 / 5), (''omnetpp'', 3 / 5)]\<rparr>)"
    by (simp add: candidate_slot_def l s header_only_parsed sanitize_header c e r five Let_def)
  with l show ?thesis by (intro conjI)
qed

section \<open>Failures during the evaluation of a candidate\<close>

text \<open>
  The evaluation of a candidate stops at the first workload whose run or whose metric
  extraction fails: the rows of the workloads before it are recorded, none after.
\<close>

lemma evaluate_workloads_stops:
  "k < length ts \<Longrightarrow>
   \<forall>m < k. \<exists>out hit. docker_run sb f (trace_path (ts ! m)) = Some out \<and>
     parse_hit_rate out = Inr hit \<Longrightarrow>
   docker_run sb f (trace_path (ts ! k)) = None \<or>
     (\<exists>out e. docker_run sb f (trace_path (ts ! k)) = Some out \<and> parse_hit_rate out = Inl e) \<Longrightarrow>
   \<exists>e rows. evaluate_workloads sb nm ds f ts tot pw db0 = (db0 @ rows, Inl e) \<and>
     map exp_workload rows = map wl_name (take k ts)"
proof (induction ts arbitrary: k tot pw db0)
  case Nil
  then show ?case by simp
next
  case (Cons t ts)
  show ?case
  proof (cases k)
    case 0
    with Cons.prems(3) have "\<exists>e. evaluate_workloads sb nm ds f (t # ts) tot pw db0 = (db0 @ [], Inl e)"
      by (auto simp: run_policy_def)
    with 0 show ?thesis by fastforce
  next
    case (Suc k')
    from Cons.prems(2) Suc obtain out hit where
      ok: "docker_run sb f (trace_path t) = Some out" "parse_hit_rate out = Inr hit"
      by fastforce
    let ?row = "\<lparr>exp_workload = wl_name t, exp_policy = nm, exp_description = ds,
                  exp_cc = f, exp_rate = hit\<rparr>"
    have 1: "k' < length ts" using Cons.prems(1) Suc by simp
    have 2: "\<forall>m < k'. \<exists>out hit. docker_run sb f (trace_path (ts ! m)) = Some out \<and>
        parse_hit_rate out = Inr hit"
      using Cons.prems(2) Suc by fastforce
    have 3: "docker_run sb f (trace_path (ts ! k')) = None \<or>
        (\<exists>out e. docker_run sb f (trace_path (ts ! k')) = Some out \<and> parse_hit_rate out = Inl e)"
      using Cons.prems(3) Suc by simp
    from Cons.IH [OF 1 2 3, of "tot + hit" "pw @ [(wl_name t, hit)]" "db0 @ [?row]"]
    obtain e rows where
      r: "evaluate_workloads sb nm ds f ts (tot + hit) (pw @ [(wl_name t, hit)]) (db0 @ [?row]) =
            ((db0 @ [?row]) @ rows, Inl e)"
         "map exp_workload rows = map wl_name (take k' ts)"
      by blast
    with ok Suc have "evaluate_workloads sb nm ds f (t # ts) tot pw db0 = (db0 @ (?row # rows), Inl e) \<and>
        map exp_workload (?row # rows) = map wl_name (take k (t # ts))"
      by (simp add: run_policy_def)
    then show ?thesis by blast
  qed
qed

text \<open>
  C1, amended. A failed call of the generator, an answer that does not parse and a failed
  build are contained: the slot yields no candidate, records nothing, and the loop goes on
  with the next slot. A failed run or a failed metric extraction on one workload is not
  contained at the level of the workload: the evaluation of the candidate ends there with
  the exception, the workloads after it are not run, only the rows of the workloads before
  it are recorded, and the slot yields no candidate.
\<close>

theorem failure_containment:
  "(llm w i j = None \<longrightarrow> candidate_slot w i j db0 = (db0, Inr None)) \<and>
   (llm w i j = Some txt \<and>
    \<not> (truthy (fst (parse_policy_content txt)) \<and> truthy (fst (snd (parse_policy_content txt))) \<and>
       truthy (snd (snd (parse_policy_content txt)))) \<longrightarrow>
      candidate_slot w i j db0 = (db0, Inr None)) \<and>
   (llm w i j = Some txt \<and> parse_policy_content txt = (Some nm, Some ds, Some cd) \<and>
    \<not> docker_compile (sandbox w)
        \<lparr>cc_iteration = i, cc_slot = j, cc_base = sanitize nm @ ''_t02''\<rparr> \<longrightarrow>
      candidate_slot w i j db0 = (db0, Inr None)) \<and>
   (candidate_slot w i j db0 = (db0, Inr None) \<longrightarrow>
      candidates_loop w i (j # js) rs db0 = candidates_loop w i js rs db0) \<and>
   (k < length ts \<and>
    (\<forall>m < k. \<exists>out hit. docker_run sb f (trace_path (ts ! m)) = Some out \<and>
       parse_hit_rate out = Inr hit) \<and>
    (docker_run sb f (trace_path (ts ! k)) = None \<or>
     (\<exists>out e. docker_run sb f (trace_path (ts ! k)) = Some out \<and> parse_hit_rate out = Inl e)) \<longrightarrow>
      (\<exists>e rows. evaluate_workloads sb nm ds f ts tot pw db0 = (db0 @ rows, Inl e) \<and>
         map exp_workload rows = map wl_name (take k ts))) \<and>
   (llm w i j = Some txt \<and> parse_policy_content txt = (Some nm, Some ds, Some cd) \<and>
    nm \<noteq> [] \<and> ds \<noteq> [] \<and> cd \<noteq> [] \<and>
    docker_compile (sandbox w)
        \<lparr>cc_iteration = i, cc_slot = j, cc_base = sanitize nm @ ''_t02''\<rparr> \<and>
    evaluate_workloads (sandbox w) nm ds
        \<lparr>cc_iteration = i, cc_slot = j, cc_base = sanitize nm @ ''_t02''\<rparr> workloads 0 [] db0 =
          (db', Inl e) \<longrightarrow>
      candidate_slot w i j db0 = (db', Inl e))"
proof -
  have 1: "candidate_slot w i j db0 = (db0, Inr None)" if "llm w i j = None"
    using that by (rule failed_generation_slot)
  have 2: "candidate_slot w i j db0 = (db0, Inr None)"
    if "llm w i j = Some txt \<and>
      \<not> (truthy (fst (parse_policy_content txt)) \<and> truthy (fst (snd (parse_policy_content txt))) \<and>
         truthy (snd (snd (parse_policy_content txt))))"
    using that
    by (cases "parse_policy_content txt")
      (auto simp: candidate_slot_def split: option.splits)
  have 3: "candidate_slot w i j db0 = (db0, Inr None)"
    if "llm w i j = Some txt \<and> parse_policy_content txt = (Some nm, Some ds, Some cd) \<and>
      \<not> docker_compile (sandbox w)
        \<lparr>cc_iteration = i, cc_slot = j, cc_base = sanitize nm @ ''_t02''\<rparr>"
    using that by (simp add: candidate_slot_def compile_policy_def Let_def)
  have 4: "candidates_loop w i (j # js) rs db0 = candidates_loop w i js rs db0"
    if "candidate_slot w i j db0 = (db0, Inr None)"
    using that by simp
  have 5: "\<exists>e rows. evaluate_workloads sb nm ds f ts tot pw db0 = (db0 @ rows, Inl e) \<and>
         map exp_workload rows = map wl_name (take k ts)"
    if "k < length ts \<and>
      (\<forall>m < k. \<exists>out hit. docker_run sb f (trace_path (ts ! m)) = Some out \<and>
         parse_hit_rate out = Inr hit) \<and>
      (docker_run sb f (trace_path (ts ! k)) = None \<or>
       (\<exists>out e. docker_run sb f (trace_path (ts ! k)) = Some out \<and> parse_hit_rate out = Inl e))"
    using that evaluate_workloads_stops [of k ts sb f nm ds tot pw db0] by blast
  have 6: "candidate_slot w i j db0 = (db', Inl e)"
    if "llm w i j = Some txt \<and> parse_policy_content txt = (Some nm, Some ds, Some cd) \<and>
      nm \<noteq> [] \<and> ds \<noteq> [] \<and> cd \<noteq> [] \<and>
      docker_compile (sandbox w)
        \<lparr>cc_iteration = i, cc_slot = j, cc_base = sanitize nm @ ''_t02''\<rparr> \<and>
      evaluate_workloads (sandbox w) nm ds
        \<lparr>cc_iteration = i, cc_slot = j, cc_base = sanitize nm @ ''_t02''\<rparr> workloads 0 [] db0 =
          (db', Inl e)"
    using that by (simp add: candidate_slot_def compile_policy_def Let_def)
  from 1 2 3 4 5 6 show ?thesis by blast
qed

lemma lbm_fails_evaluation:
  "evaluate_workloads lbm_fails_sandbox ''LRU Plus'' ''Keeps hot lines.'' f workloads 0 [] db0 =
     (db0 @ [example_row f ''astar''], Inl CalledProcessError)"
  by (simp add: workloads_def WORKLOADS_def run_policy_def lbm_fails_sandbox_def
      sim_output_hit_rate example_row_def)

lemma run_failure_slot:
  "candidate_slot run_failure_world 0 0 db0 =
     (db0 @ [example_row (example_file 0 0) ''astar''], Inl CalledProcessError)"
proof -
  have c: "compile_policy lbm_fails_sandbox \<lparr>cc_iteration = 0, cc_slot = 0, cc_base = ''lru_plus_t02''\<rparr>
      = Inr \<lparr>cc_iteration = 0, cc_slot = 0, cc_base = ''lru_plus_t02''\<rparr>"
    by (simp add: compile_policy_def lbm_fails_sandbox_def)
  show ?thesis
    by (simp add: candidate_slot_def run_failure_world_def good_response_parsed
        sanitize_lru_plus c lbm_fails_evaluation example_file_def Let_def)
qed

lemma run_failure_main:
  "main run_failure_world (1 / 2) =
     Raised CalledProcessError ((init (1 / 2))\<lparr>db := [example_row (example_file 0 0) ''astar'']\<rparr>)"
proof -
  have "candidates_loop run_failure_world 0 [0..<CANDIDATES] []
          (db (feedback_step 0 (init (1 / 2)))) =
     ([example_row (example_file 0 0) ''astar''], Inl CalledProcessError)"
    using run_failure_slot [of "[]"]
    by (simp add: three_slots feedback_step_others init_def)
  from iteration_raised [OF this]
  have "iteration run_failure_world 0 (init (1 / 2)) =
     Raised CalledProcessError ((init (1 / 2))\<lparr>db := [example_row (example_file 0 0) ''astar'']\<rparr>)"
    by (simp add: feedback_step_def)
  then show ?thesis by (simp add: main_def iterations_from_0)
qed

theorem failure_containment_witness:
  "llm one_candidate_world 0 1 = None \<and>
   candidate_slot one_candidate_world 0 1 [] = ([], Inr None) \<and>
   candidates_loop one_candidate_world 0 [1, 2] [] [] =
     candidates_loop one_candidate_world 0 [2] [] [] \<and>
   llm no_code_world 0 0 = Some no_code_response \<and>
   \<not> truthy (snd (snd (parse_policy_content no_code_response))) \<and>
   candidate_slot no_code_world 0 0 [] = ([], Inr None) \<and>
   llm no_build_world 0 0 = Some good_response \<and>
   parse_policy_content good_response =
     (Some ''LRU Plus'', Some ''Keeps hot lines.'', Some ''int x;'') \<and>
   \<not> docker_compile (sandbox no_build_world)
       \<lparr>cc_iteration = 0, cc_slot = 0, cc_base = sanitize ''LRU Plus'' @ ''_t02''\<rparr> \<and>
   candidate_slot no_build_world 0 0 [] = ([], Inr None) \<and>
   1 < length workloads \<and>
   docker_run lbm_fails_sandbox (example_file 0 0) (trace_path (workloads ! 0)) = Some sim_output \<and>
   parse_hit_rate sim_output = Inr (3 / 5) \<and>
   docker_run lbm_fails_sandbox (example_file 0 0) (trace_path (workloads ! 1)) = None \<and>
   (\<exists>e rows. evaluate_workloads lbm_fails_sandbox ''LRU Plus'' ''Keeps hot lines.''
        (example_file 0 0) workloads 0 [] [] = (rows, Inl e) \<and>
      map exp_workload rows = [''astar''])"
proof -
  have a1: "llm one_candidate_world 0 1 = None"
    by (simp add: one_candidate_world_def)
  note t1 = failure_containment [of one_candidate_world 0 1 "[]" _ _ _ _ "[2]" "[]"]
  have a2: "candidate_slot one_candidate_world 0 1 [] = ([], Inr None)"
    using t1 a1 by blast
  have a3: "candidates_loop one_candidate_world 0 [1, 2] [] [] =
     candidates_loop one_candidate_world 0 [2] [] []"
    using t1 a2 by blast
  have b1: "llm no_code_world 0 0 = Some no_code_response"
    by (simp add: no_code_world_def)
  have b2: "\<not> truthy (snd (snd (parse_policy_content no_code_response)))"
    by (simp add: parse_policy_content_def no_code_response_parsed)
  have b3: "candidate_slot no_code_world 0 0 [] = ([], Inr None)"
    using failure_containment [of no_code_world 0 0 "[]" no_code_response] b1 b2 by blast
  have c1: "llm no_build_world 0 0 = Some good_response"
    by (simp add: no_build_world_def)
  have c2: "\<not> docker_compile (sandbox no_build_world)
       \<lparr>cc_iteration = 0, cc_slot = 0, cc_base = sanitize ''LRU Plus'' @ ''_t02''\<rparr>"
    by (simp add: no_build_world_def)
  have c3: "candidate_slot no_build_world 0 0 [] = ([], Inr None)"
    using failure_containment [of no_build_world 0 0 "[]" good_response
        "''LRU Plus''" "''Keeps hot lines.''" "''int x;''"]
      c1 c2 good_response_parsed by blast
  have d1: "1 < length workloads" by (simp add: workloads_def WORKLOADS_def)
  have d2: "docker_run lbm_fails_sandbox (example_file 0 0) (trace_path (workloads ! 0)) =
      Some sim_output"
    by (simp add: workloads_def WORKLOADS_def lbm_fails_sandbox_def)
  have d3: "docker_run lbm_fails_sandbox (example_file 0 0) (trace_path (workloads ! 1)) = None"
    by (simp add: workloads_def WORKLOADS_def lbm_fails_sandbox_def)
  have d4: "\<forall>m < 1. \<exists>out hit.
      docker_run lbm_fails_sandbox (example_file 0 0) (trace_path (workloads ! m)) = Some out \<and>
      parse_hit_rate out = Inr hit"
  proof (intro allI impI)
    fix m :: nat
    assume "m < 1"
    then have "m = 0" by simp
    with d2 sim_output_hit_rate show "\<exists>out hit.
      docker_run lbm_fails_sandbox (example_file 0 0) (trace_path (workloads ! m)) = Some out \<and>
      parse_hit_rate out = Inr hit"
      by blast
  qed
  have "\<exists>e rows. evaluate_workloads lbm_fails_sandbox ''LRU Plus'' ''Keeps hot lines.''
        (example_file 0 0) workloads 0 [] [] = ([] @ rows, Inl e) \<and>
      map exp_workload rows = map wl_name (take 1 workloads)"
    using failure_containment [of _ _ _ "[]" _ "''LRU Plus''" "''Keeps hot lines.''" _ _ _
        1 workloads lbm_fails_sandbox "example_file 0 0" 0 "[]"]
      d1 d3 d4 by blast
  then have d5: "\<exists>e rows. evaluate_workloads lbm_fails_sandbox ''LRU Plus'' ''Keeps hot lines.''
        (example_file 0 0) workloads 0 [] [] = (rows, Inl e) \<and>
      map exp_workload rows = [''astar'']"
    by (simp add: workloads_def WORKLOADS_def)
  from a1 a2 a3 b1 b2 b3 c1 good_response_parsed c2 c3 d1 d2 sim_output_hit_rate d3 d5
  show ?thesis by blast
qed

text \<open>
  The claim as written fails: when the run on the second workload fails, the exception
  ends \<open>main\<close> in the first iteration, and of the five workloads only the first has a
  row; the three after the failed one are never run.
\<close>

theorem run_failure_aborts_counterexample:
  "main run_failure_world (1 / 2) =
     Raised CalledProcessError
       ((init (1 / 2))\<lparr>db := [example_row (example_file 0 0) ''astar'']\<rparr>) \<and>
   map exp_workload (db (flow_state (main run_failure_world (1 / 2)))) = [''astar''] \<and>
   length workloads = 5"
  by (simp add: run_failure_main example_row_def workloads_def WORKLOADS_def)

section \<open>The score of a candidate\<close>

lemma evaluate_rows_length:
  "evaluate_rows sb exe wls rs = Inr rs' \<Longrightarrow> length rs' = length rs + length wls"
proof (induction wls arbitrary: rs)
  case Nil
  then show ?case by simp
next
  case (Cons w wls)
  from Cons.prems obtain out v where
    "evaluate_rows sb exe wls
       (rs @ [\<lparr>row_workload = wl_name w, row_policy = exe, row_ipc = v,
                row_cache_hit_rate = parse_cache_hit_rate out\<rparr>]) = Inr rs'"
    by (auto split: sum.splits)
  from Cons.IH [OF this] show ?case by simp
qed

lemma evaluate_workloads_total:
  "evaluate_workloads sb nm ds f ts tot pw db0 = (db', Inr (tot', pw')) \<Longrightarrow>
     \<exists>new. pw' = pw @ new \<and> length new = length ts \<and> tot' = tot + sum_list (map snd new)"
proof (induction ts arbitrary: tot pw db0)
  case Nil
  then show ?case by simp
next
  case (Cons t ts)
  from Cons.prems obtain out hit where
    "evaluate_workloads sb nm ds f ts (tot + hit) (pw @ [(wl_name t, hit)])
       (db0 @ [\<lparr>exp_workload = wl_name t, exp_policy = nm, exp_description = ds,
                exp_cc = f, exp_rate = hit\<rparr>]) = (db', Inr (tot', pw'))"
    by (auto split: sum.splits)
  from Cons.IH [OF this] obtain new where
    "pw' = (pw @ [(wl_name t, hit)]) @ new" "length new = length ts"
    "tot' = tot + hit + sum_list (map snd new)"
    by blast
  then have "pw' = pw @ ((wl_name t, hit) # new) \<and> length ((wl_name t, hit) # new) = length (t # ts) \<and>
      tot' = tot + sum_list (map snd ((wl_name t, hit) # new))"
    by simp
  then show ?case by blast
qed

text \<open>
  C4, amended. \<open>evaluate_policy\<close> over an empty list of workloads returns the number 0.0
  as the mean, with no rows; over a non-empty list it returns one row per workload and the
  arithmetic mean of their IPC values. In the search loop a candidate enters
  \<open>candidate_results\<close> only with one observation per workload, its score being their sum
  over the number of workloads. An iteration whose \<open>candidate_results\<close> is empty selects
  and records nothing: the current score, the previous candidate and the recorded chosen
  scores stay as they were, and the best score is what the feedback branch at the head of
  the iteration makes it, which is the best score itself in the first iteration and the
  greater of the best and the current score in a later one.
\<close>

theorem empty_mean_is_zero:
  "(docker_compile sb p \<longrightarrow> evaluate_policy sb p [] = Inr (0, [])) \<and>
   (evaluate_policy sb p wls = Inr (mean_ipc, rows) \<longrightarrow>
      length rows = length wls \<and>
      (wls \<noteq> [] \<longrightarrow> mean_ipc = sum_list (map row_ipc rows) / real (length wls))) \<and>
   (candidate_slot w i j db0 = (db', Inr (Some c)) \<longrightarrow>
      length (per_wl c) = length workloads \<and>
      avg_hit c = sum_list (map snd (per_wl c)) / real (length workloads)) \<and>
   (candidates_loop w i [0..<CANDIDATES] [] (db (feedback_step i st)) = (db', Inr []) \<longrightarrow>
      iteration w i st = Next ((feedback_step i st)\<lparr>db := db'\<rparr>) \<and>
      best_hit (flow_state (iteration w i st)) =
        (if i = 0 then best_hit st else max (best_hit st) (current_hit st)) \<and>
      current_hit (flow_state (iteration w i st)) = current_hit st \<and>
      prev (flow_state (iteration w i st)) = prev st \<and>
      chosen_scores (flow_state (iteration w i st)) = chosen_scores st)"
proof -
  have 1: "evaluate_policy sb p [] = Inr (0, [])" if "docker_compile sb p"
    using that by (simp add: evaluate_policy_def compile_policy_def)
  have 2: "length rows = length wls \<and>
      (wls \<noteq> [] \<longrightarrow> mean_ipc = sum_list (map row_ipc rows) / real (length wls))"
    if "evaluate_policy sb p wls = Inr (mean_ipc, rows)"
  proof -
    from that obtain exe where
      r: "evaluate_rows sb exe wls [] = Inr rows"
      and m: "mean_ipc = (if rows \<noteq> [] then sum_list (map row_ipc rows) / real (length rows) else 0)"
      by (auto simp: evaluate_policy_def Let_def split: sum.splits)
    from evaluate_rows_length [OF r] have l: "length rows = length wls" by simp
    then have "wls \<noteq> [] \<Longrightarrow> rows \<noteq> []" by auto
    with l m show ?thesis by simp
  qed
  have 3: "length (per_wl c) = length workloads \<and>
      avg_hit c = sum_list (map snd (per_wl c)) / real (length workloads)"
    if "candidate_slot w i j db0 = (db', Inr (Some c))"
  proof -
    from that obtain nm ds f tot pw where
      e: "evaluate_workloads (sandbox w) nm ds f workloads 0 [] db0 = (db', Inr (tot, pw))"
      and c: "per_wl c = pw" "avg_hit c = tot / real (length workloads)"
      by (auto simp: candidate_slot_def Let_def
          split: option.splits sum.splits prod.splits if_splits)
    from evaluate_workloads_total [OF e] c show ?thesis by auto
  qed
  have 4: "iteration w i st = Next ((feedback_step i st)\<lparr>db := db'\<rparr>) \<and>
      best_hit (flow_state (iteration w i st)) =
        (if i = 0 then best_hit st else max (best_hit st) (current_hit st)) \<and>
      current_hit (flow_state (iteration w i st)) = current_hit st \<and>
      prev (flow_state (iteration w i st)) = prev st \<and>
      chosen_scores (flow_state (iteration w i st)) = chosen_scores st"
    if l: "candidates_loop w i [0..<CANDIDATES] [] (db (feedback_step i st)) = (db', Inr [])"
  proof -
    from candidates_loop_extends [OF l] obtain rows where
      "db' = db st @ rows" "\<forall>x \<in> set rows. exp_workload x \<noteq> ''all''"
      by (auto simp: feedback_step_others)
    then have "chosen_scores ((feedback_step i st)\<lparr>db := db'\<rparr>) = chosen_scores st"
      by (simp add: chosen_scores_def feedback_step_others)
    then show ?thesis
      by (simp add: iteration_skipped [OF l] feedback_step_others feedback_step_best)
  qed
  from 1 2 3 4 show ?thesis by blast
qed

lemma script_sandbox_run:
  "evaluate_policy script_sandbox ''policy.cc'' [hd WORKLOADS] =
     Inr (1.2345, [\<lparr>row_workload = ''astar'', row_policy = ''policy.cc'', row_ipc = 1.2345,
                     row_cache_hit_rate = None\<rparr>])"
proof -
  have p: "snd (parse_ipc ''CPU 0 cumulative IPC: 1.2345'') = Inr 1.2345"
    using per_core_example by (rule parse_ipc_per_core)
  have h: "parse_cache_hit_rate ''CPU 0 cumulative IPC: 1.2345'' = None"
    by (simp add: parse_cache_hit_rate_def pat_eval char_eval)
  show ?thesis
    by (simp add: evaluate_policy_def compile_policy_def run_executable_def script_sandbox_def
        WORKLOADS_def p h)
qed

lemma after_first_iteration_fields:
  "best_hit after_first_iteration = 1 / 2"
  "current_hit after_first_iteration = 3 / 5"
  by (simp_all add: after_first_iteration_def record_chosen_fields init_def
      example_candidate_def)

theorem empty_mean_is_zero_witness:
  "docker_compile script_sandbox ''policy.cc'' \<and>
   evaluate_policy script_sandbox ''policy.cc'' [] = Inr (0, []) \<and>
   evaluate_policy script_sandbox ''policy.cc'' [hd WORKLOADS] =
     Inr (1.2345, [\<lparr>row_workload = ''astar'', row_policy = ''policy.cc'', row_ipc = 1.2345,
                     row_cache_hit_rate = None\<rparr>]) \<and>
   [hd WORKLOADS] \<noteq> [] \<and>
   candidate_slot one_candidate_world 0 0 [] =
     (example_rows (example_file 0 0), Inr (Some (example_candidate (example_file 0 0)))) \<and>
   length (per_wl (example_candidate (example_file 0 0))) = length workloads \<and>
   candidates_loop one_candidate_world 1 [0..<CANDIDATES] []
       (db (feedback_step 1 after_first_iteration)) =
     (db (feedback_step 1 after_first_iteration), Inr []) \<and>
   best_hit after_first_iteration = 1 / 2 \<and>
   current_hit after_first_iteration = 3 / 5 \<and>
   best_hit (flow_state (iteration one_candidate_world 1 after_first_iteration)) = 3 / 5 \<and>
   current_hit (flow_state (iteration one_candidate_world 1 after_first_iteration)) = 3 / 5"
proof -
  have a: "docker_compile script_sandbox ''policy.cc''"
    by (simp add: script_sandbox_def)
  note t1 = empty_mean_is_zero [of script_sandbox "''policy.cc''", THEN conjunct1]
  have b: "evaluate_policy script_sandbox ''policy.cc'' [] = Inr (0, [])"
    by (rule mp [OF t1]) (rule a)
  have c: "[hd WORKLOADS] \<noteq> []" by simp
  have g: "candidate_slot one_candidate_world 0 0 [] =
     (example_rows (example_file 0 0), Inr (Some (example_candidate (example_file 0 0))))"
    using good_slot [of one_candidate_world 0 0 "[]"] by (simp add: one_candidate_world_def)
  note t3 = empty_mean_is_zero [of _ _ _ _ _ one_candidate_world 0 0 "[]"
        "example_rows (example_file 0 0)" "example_candidate (example_file 0 0)",
        THEN conjunct2, THEN conjunct2, THEN conjunct1]
  have l: "length (per_wl (example_candidate (example_file 0 0))) = length workloads"
    using mp [OF t3 g] by (rule conjunct1)
  have e: "candidates_loop one_candidate_world 1 [0..<CANDIDATES] []
       (db (feedback_step 1 after_first_iteration)) =
     (db (feedback_step 1 after_first_iteration), Inr [])"
    by (rule one_candidate_loop_later) simp
  note t4 = empty_mean_is_zero [of _ _ _ _ _ one_candidate_world 1 _ _ _ _
        after_first_iteration, THEN conjunct2, THEN conjunct2, THEN conjunct2]
  note r = mp [OF t4 e]
  have n: "best_hit (flow_state (iteration one_candidate_world 1 after_first_iteration)) = 3 / 5"
    using r [THEN conjunct2, THEN conjunct1]
    by (simp add: after_first_iteration_fields)
  have m: "current_hit (flow_state (iteration one_candidate_world 1 after_first_iteration)) = 3 / 5"
    using r [THEN conjunct2, THEN conjunct2, THEN conjunct1]
    by (simp add: after_first_iteration_fields)
  show ?thesis
    by (intro conjI a b script_sandbox_run c g l e after_first_iteration_fields(1)
        after_first_iteration_fields(2) n m)
qed

text \<open>
  The claim as written fails: over no observations the evaluation returns the number 0.
\<close>

theorem empty_mean_counterexample:
  "evaluate_policy script_sandbox ''policy.cc'' [] = Inr (0, [])"
  by (simp add: evaluate_policy_def compile_policy_def script_sandbox_def)

end
